theory Spec2Isabelle
  imports Complex_Main "HOL-Library.AList"
begin

section \<open>JavaScript values\<close>

text \<open>
  Values that cross the process boundary are whatever \<open>JSON.parse\<close> returns. A property
  that is absent reads as \<open>undefined\<close>, modelled by \<open>None\<close> of \<open>json option\<close>.
  A \<open>string\<close> stands for a JavaScript string, one \<open>char\<close> per code unit, so
  \<open>length\<close> is \<open>.length\<close>. Numbers are only compared with zero and passed on,
  never computed with, apart from the integer difference of two clock readings.
\<close>

datatype json =
    JNull
  | JBool bool
  | JNum rat
  | JStr string
  | JArr "json list"
  | JObj "(string \<times> json) list"

text \<open>Truthiness, as \<open>!x\<close> and \<open>x || y\<close> test it.\<close>

fun truthy :: "json option \<Rightarrow> bool" where
  "truthy None = False"
| "truthy (Some JNull) = False"
| "truthy (Some (JBool b)) = b"
| "truthy (Some (JNum n)) = (n \<noteq> 0)"
| "truthy (Some (JStr s)) = (s \<noteq> [])"
| "truthy (Some (JArr xs)) = True"
| "truthy (Some (JObj kvs)) = True"

text \<open>\<open>x || d\<close> where \<open>d\<close> is a literal.\<close>

definition or_else :: "json option \<Rightarrow> json \<Rightarrow> json" where
  "or_else x d = (case x of None \<Rightarrow> d | Some v \<Rightarrow> if truthy (Some v) then v else d)"

text \<open>
  Reading a property. None of the names the routes read (\<open>success\<close>, \<open>error\<close>,
  \<open>encrypted_path\<close>, \<open>npcr\<close>, ...) is inherited from a prototype, so on anything but an
  object the read gives \<open>undefined\<close>; on \<open>null\<close> it throws a TypeError.
\<close>

fun get :: "json \<Rightarrow> string \<Rightarrow> json option" where
  "get (JObj kvs) k = map_of kvs k"
| "get v k = None"

definition read_prop :: "json \<Rightarrow> string \<Rightarrow> string + json option" where
  "read_prop v k =
     (if v = JNull
      then Inl (''Cannot read properties of null (reading '' @ [CHR 0x27] @ k @ [CHR 0x27] @ '')'')
      else Inr (get v k))"

text \<open>
  \<open>String.prototype.trim\<close>: the white space and line terminators that fit a \<open>char\<close>.
\<close>

definition is_space :: "char \<Rightarrow> bool" where
  "is_space c = (c \<in> set [CHR 0x09, CHR 0x0A, CHR 0x0B, CHR 0x0C, CHR 0x0D, CHR 0x20, CHR 0xA0])"

definition trim :: "string \<Rightarrow> string" where
  "trim s = rev (dropWhile is_space (rev (dropWhile is_space s)))"

text \<open>A non-negative integer converted to a string: its decimal digits.\<close>

definition digit :: "nat \<Rightarrow> char" where
  "digit d = ''0123456789'' ! d"

function dec :: "nat \<Rightarrow> string" where
  "dec n = (if n < 10 then [digit n] else dec (n div 10) @ [digit (n mod 10)])"
  by pat_completeness auto
termination
  by (relation "measure id") auto

declare dec.simps [simp del]

text \<open>\<open>Array.prototype.join\<close> on strings.\<close>

fun join :: "string \<Rightarrow> string list \<Rightarrow> string" where
  "join sep [] = []"
| "join sep [x] = x"
| "join sep (x # y # ys) = x @ sep @ join sep (y # ys)"

section \<open>The fields of a form\<close>

text \<open>
  The text parts of a multipart form, as Multer puts them into \<open>req.body\<close>: a string;
  an array, when the name of the field is repeated or ends in \<open>[]\<close>; an object
  without a prototype, when the name carries a key in brackets. A field that is not
  in the form reads as \<open>undefined\<close>, modelled by \<open>None\<close> of \<open>field option\<close>.
\<close>

datatype field =
    FText string
  | FArr "field list"
  | FObj "(string \<times> field) list"

text \<open>Truthiness of such a value.\<close>

fun truthy_field :: "field option \<Rightarrow> bool" where
  "truthy_field None = False"
| "truthy_field (Some (FText s)) = (s \<noteq> [])"
| "truthy_field (Some (FArr xs)) = True"
| "truthy_field (Some (FObj kvs)) = True"

text \<open>
  The conversion to a string that a template literal applies. A string is itself; an
  array is its elements, converted, joined by commas (\<open>Array.prototype.toString\<close>);
  an object without a prototype has no \<open>toString\<close> and no \<open>valueOf\<close>, and the
  conversion throws a TypeError, modelled by \<open>None\<close>.
\<close>

fun field_text :: "field \<Rightarrow> string option" where
  "field_text (FText s) = Some s"
| "field_text (FArr xs) = map_option (join '','') (those (map field_text xs))"
| "field_text (FObj kvs) = None"

definition conversion_error :: string where
  "conversion_error = ''Cannot convert object to primitive value''"

section \<open>The world outside the handlers\<close>

record exec_options =
  timeout :: nat
  maxBuffer :: nat
  encoding :: string

text \<open>
  What \<open>child_process.exec\<close> hands to its callback: \<open>error\<close> is the message of the
  error object when there is one (non-zero exit, kill at the deadline, output beyond
  \<open>maxBuffer\<close>, spawn failure), and \<open>written\<close> lists the files the process left on disk.
\<close>

record exec_result =
  error :: "string option"
  stdout :: string
  stderr :: string
  written :: "string list"

text \<open>The file object Multer attaches to the request.\<close>

record upload =
  path :: string
  originalname :: string
  mimetype :: string
  size_u :: nat

text \<open>
  A stored document, one field per path of \<open>encryptedImageSchema\<close>. A Number path
  holds a number or \<open>null\<close> (\<open>None\<close>).
\<close>

record image_metrics =
  encryptionTime :: "rat option"
  entropy_original :: "rat option"
  entropy_encrypted :: "rat option"
  npcr :: "rat option"
  uaci :: "rat option"

record encrypted_image =
  originalName :: string
  encryptedName :: string
  encryptedPath :: string
  originalPath :: "string option"
  size_d :: rat
  mimeType :: string
  chaoticMap :: string
  encryptionType :: string
  uploadDate :: nat
  metrics :: image_metrics
  status :: string

text \<open>
  Everything a handler asks of its surroundings during one request: the process
  environment, the library functions whose code is not part of the repository, the
  readings of \<open>Date.now()\<close> and \<open>Math.random()\<close>, and the answers of the child
  process and of the record store.
\<close>

record env =
  RENDER :: bool
  platform :: string
  dirname :: string
  exec :: "string \<Rightarrow> exec_options \<Rightarrow> exec_result"
  JSON_parse :: "string \<Rightarrow> json option"
  ToString :: "json option \<Rightarrow> string"
  less_than :: "field \<Rightarrow> nat \<Rightarrow> bool"
  castString :: "json \<Rightarrow> string option"
  castField :: "field \<Rightarrow> string option"
  castNumber :: "json \<Rightarrow> rat option option"
  validation_message :: string
  invalid_arg_message :: "json option \<Rightarrow> string"
  path_join :: "string list \<Rightarrow> string"
  path_basename :: "string \<Rightarrow> string"
  path_basename_ext :: "string \<Rightarrow> string \<Rightarrow> string"
  path_extname :: "string \<Rightarrow> string"
  now_upload :: nat
  random_upload :: nat
  now_start :: nat
  now_stamp :: nat
  now_done :: nat
  now_doc :: nat
  store_error :: "string option"
  find_error :: "string option"

datatype response =
    Json nat json
  | Download string string

datatype event =
    Exec string exec_options
  | Unlink string
  | Saved nat
  | Removed nat
  | Respond response

text \<open>
  The state the handlers change: the files on disk, the record store, the next fresh
  document id, and the trace of effects in the order they happened.
\<close>

record world =
  files :: "string set"
  db :: "(nat \<times> encrypted_image) list"
  next_id :: nat
  events :: "event list"

definition emit :: "event \<Rightarrow> world \<Rightarrow> world" where
  "emit ev w = w\<lparr>events := events w @ [ev]\<rparr>"

fun is_exec :: "event \<Rightarrow> bool" where
  "is_exec (Exec c opts) = True"
| "is_exec ev = False"

definition invocations :: "world \<Rightarrow> event list" where
  "invocations w = filter is_exec (events w)"

section \<open>routes/encryption.js: the capability invoker\<close>

definition getPythonCommand :: "env \<Rightarrow> string" where
  "getPythonCommand e =
     (if RENDER e then ''python3''
      else if platform e = ''win32'' then ''python'' else ''python3'')"

definition PYTHON_CMD :: "env \<Rightarrow> string" where
  "PYTHON_CMD e = getPythonCommand e"

text \<open>
  A template literal \<open>`${arg}`\<close> on a string, on \<open>undefined\<close> or on a value that
  \<open>JSON.parse\<close> returned: a string is itself, anything else is converted by the
  language, which never throws on such a value.
\<close>

definition template :: "env \<Rightarrow> json option \<Rightarrow> string" where
  "template e v = (case v of Some (JStr s) \<Rightarrow> s | _ \<Rightarrow> ToString e v)"

definition python_command :: "env \<Rightarrow> string \<Rightarrow> json option list \<Rightarrow> string" where
  "python_command e scriptPath args =
     (let argsString = join '' '' (map (\<lambda>arg. [CHR 0x22] @ template e arg @ [CHR 0x22]) args)
      in PYTHON_CMD e @ '' '' @ [CHR 0x22] @ scriptPath @ [CHR 0x22] @ '' '' @ argsString)"

definition exec_opts :: exec_options where
  "exec_opts = \<lparr>timeout = 30000, maxBuffer = 50 * 1024 * 1024, encoding = ''utf-8''\<rparr>"

text \<open>
  \<open>runPythonScript\<close>: \<open>Inl\<close> is the message of the Error the promise rejects with,
  \<open>Inr\<close> the value it resolves with.
\<close>

definition runPythonScript ::
  "env \<Rightarrow> string \<Rightarrow> json option list \<Rightarrow> world \<Rightarrow> (string + json) \<times> world" where
  "runPythonScript e scriptPath args w =
     (let command = python_command e scriptPath args;
          r = exec e command exec_opts;
          w' = (emit (Exec command exec_opts) w)\<lparr>files := files w \<union> set (written r)\<rparr>
      in case error r of
           Some message \<Rightarrow> (Inl (if stderr r \<noteq> [] then stderr r else message), w')
         | None \<Rightarrow>
             (case JSON_parse e (trim (stdout r)) of
                Some result \<Rightarrow> (Inr result, w')
              | None \<Rightarrow> (Inl (''Failed to parse: '' @ stdout r), w')))"

text \<open>What \<open>exec\<close> hands to the callback of that call.\<close>

definition child :: "env \<Rightarrow> string \<Rightarrow> json option list \<Rightarrow> exec_result" where
  "child e scriptPath args = exec e (python_command e scriptPath args) exec_opts"

text \<open>
  An argument that comes from the form. Its interpolation \<open>`${arg}`\<close> is the first
  thing the executor of the promise does; a field that cannot be converted makes it
  throw there, which rejects the promise before \<open>exec\<close> is called. A field that can
  be converted is passed on as its text, a missing one as \<open>undefined\<close>. The outer
  \<open>None\<close> of \<open>form_arg\<close>, and of the argument lists built with it, stands for
  that TypeError.
\<close>

definition form_arg :: "field option \<Rightarrow> json option option" where
  "form_arg v =
     (case v of
        None \<Rightarrow> Some None
      | Some x \<Rightarrow> map_option (\<lambda>s. Some (JStr s)) (field_text x))"

definition invoke ::
  "env \<Rightarrow> string \<Rightarrow> json option list option \<Rightarrow> world \<Rightarrow> (string + json) \<times> world" where
  "invoke e scriptPath args w =
     (case args of
        None \<Rightarrow> (Inl conversion_error, w)
      | Some a \<Rightarrow> runPythonScript e scriptPath a w)"

section \<open>routes/encryption.js: staging of uploads\<close>



text \<open>
  Multer's disk storage writes the incoming file to the join of the two, replacing
  whatever is there, and fills in the file object.
\<close>

record incoming =
  in_originalname :: string
  in_mimetype :: string
  in_size :: nat


section \<open>models/EncryptedImage.js\<close>

text \<open>
  The object literal the routes hand to \<open>new EncryptedImage\<close>. Its top-level keys are
  the schema's own and, apart from \<open>encryptedPath\<close> (read from the script's payload)
  and \<open>chaoticMap\<close> (read from the request body), always hold a string or a number. The
  \<open>metrics\<close> object is kept as the key-value list the route builds, since its keys
  are not the schema's.
\<close>

record image_fields =
  f_originalName :: string
  f_encryptedName :: string
  f_encryptedPath :: "json option"
  f_originalPath :: string
  f_size :: nat
  f_mimeType :: string
  f_chaoticMap :: field
  f_encryptionType :: string
  f_status :: string
  f_metrics :: "(string \<times> json) list"

text \<open>
  The schema is declared with no \<open>strict\<close> option, so Mongoose's default applies: a key
  that is not a path of the schema is dropped when the document is built, and a path
  that is given no value takes its declared default. A value of the wrong type is cast
  by the library (\<open>castString\<close>, \<open>castNumber\<close>, and \<open>castField\<close> for a value from
  the form; \<open>None\<close> is a CastError).
\<close>

definition schema_field :: "env \<Rightarrow> field \<Rightarrow> string option" where
  "schema_field e v = (case v of FText s \<Rightarrow> Some s | x \<Rightarrow> castField e x)"

definition schema_string :: "env \<Rightarrow> json option \<Rightarrow> string option" where
  "schema_string e v =
     (case v of
        None \<Rightarrow> None
      | Some JNull \<Rightarrow> None
      | Some (JStr s) \<Rightarrow> Some s
      | Some x \<Rightarrow> castString e x)"

text \<open>A Number path with \<open>default: 0\<close>; the outer \<open>None\<close> is a CastError.\<close>

definition schema_number :: "env \<Rightarrow> json option \<Rightarrow> rat option option" where
  "schema_number e v =
     (case v of
        None \<Rightarrow> Some (Some 0)
      | Some JNull \<Rightarrow> Some None
      | Some (JNum n) \<Rightarrow> Some (Some n)
      | Some x \<Rightarrow> castNumber e x)"

text \<open>
  The paths under \<open>metrics\<close>: \<open>encryptionTime\<close>, \<open>entropy.original\<close>,
  \<open>entropy.encrypted\<close>, \<open>npcr\<close> and \<open>uaci\<close>. The nested path \<open>entropy\<close> takes
  an object; an array is an object with none of the two keys, so both take their
  default. The routes never pass a falsy value there, and any other value
  invalidates the document.
\<close>

definition schema_metrics :: "env \<Rightarrow> (string \<times> json) list \<Rightarrow> image_metrics option" where
  "schema_metrics e m =
     (let entropy = (case map_of m ''entropy'' of
                       None \<Rightarrow> Some []
                     | Some (JObj kvs) \<Rightarrow> Some kvs
                     | Some (JArr xs) \<Rightarrow> Some []
                     | Some x \<Rightarrow> None)
      in case entropy of
           None \<Rightarrow> None
         | Some kvs \<Rightarrow>
            (case (schema_number e (map_of m ''encryptionTime''),
                   schema_number e (map_of kvs ''original''),
                   schema_number e (map_of kvs ''encrypted''),
                   schema_number e (map_of m ''npcr''),
                   schema_number e (map_of m ''uaci'')) of
               (Some t, Some eo, Some ee, Some n, Some u) \<Rightarrow>
                 Some \<lparr>encryptionTime = t, entropy_original = eo, entropy_encrypted = ee,
                       npcr = n, uaci = u\<rparr>
             | _ \<Rightarrow> None))"

text \<open>
  Building and validating the document: \<open>trim\<close> setters, \<open>required\<close> (an empty string
  does not satisfy it), and the three \<open>enum\<close> lists. \<open>min: 0\<close> on \<open>size\<close> holds of
  every file size. \<open>None\<close> is a ValidationError at \<open>save()\<close>.
\<close>

definition EncryptedImage :: "env \<Rightarrow> image_fields \<Rightarrow> encrypted_image option" where
  "EncryptedImage e f =
     (case (schema_string e (f_encryptedPath f), schema_field e (f_chaoticMap f),
            schema_metrics e (f_metrics f)) of
        (Some p, Some map_name, Some m) \<Rightarrow>
          if trim (f_originalName f) \<noteq> [] \<and> trim (f_encryptedName f) \<noteq> [] \<and> p \<noteq> []
             \<and> f_mimeType f \<noteq> []
             \<and> map_name \<in> set [''logistic'', ''arnold'', ''tent'', ''henon'']
             \<and> f_encryptionType f \<in> set [''basic'', ''steganography'']
             \<and> f_status f \<in> set [''pending'', ''processing'', ''completed'', ''failed'']
          then Some \<lparr>originalName = trim (f_originalName f),
                     encryptedName = trim (f_encryptedName f),
                     encryptedPath = p,
                     originalPath = Some (f_originalPath f),
                     size_d = of_nat (f_size f),
                     mimeType = f_mimeType f,
                     chaoticMap = map_name,
                     encryptionType = f_encryptionType f,
                     uploadDate = now_doc e,
                     metrics = m,
                     status = f_status f\<rparr>
          else None
      | _ \<Rightarrow> None)"

text \<open>
  \<open>await newImage.save()\<close>: \<open>Inl\<close> is the message of the error it rejects with (a
  ValidationError, or whatever the store reports), \<open>Inr\<close> the \<open>_id\<close> of the document
  now in the store.
\<close>

definition save :: "env \<Rightarrow> image_fields \<Rightarrow> world \<Rightarrow> (string + nat) \<times> world" where
  "save e f w =
     (case EncryptedImage e f of
        None \<Rightarrow> (Inl (validation_message e), w)
      | Some doc \<Rightarrow>
         (case store_error e of
            Some message \<Rightarrow> (Inl message, w)
          | None \<Rightarrow>
              (Inr (next_id w),
               (emit (Saved (next_id w)) w)
                 \<lparr>db := db w @ [(next_id w, doc)], next_id := Suc (next_id w)\<rparr>)))"

text \<open>\<open>findById\<close>, and \<open>findByIdAndDelete\<close>, which also removes what it found.\<close>

definition findById :: "env \<Rightarrow> nat \<Rightarrow> world \<Rightarrow> string + encrypted_image option" where
  "findById e i w =
     (case find_error e of Some message \<Rightarrow> Inl message | None \<Rightarrow> Inr (map_of (db w) i))"

definition findByIdAndDelete ::
  "env \<Rightarrow> nat \<Rightarrow> world \<Rightarrow> (string + encrypted_image option) \<times> world" where
  "findByIdAndDelete e i w =
     (case find_error e of
        Some message \<Rightarrow> (Inl message, w)
      | None \<Rightarrow>
         (case map_of (db w) i of
            None \<Rightarrow> (Inr None, w)
          | Some img \<Rightarrow>
              (Inr (Some img), (emit (Removed i) w)\<lparr>db := filter (\<lambda>r. fst r \<noteq> i) (db w)\<rparr>)))"

section \<open>routes/encryption.js: the routes\<close>

text \<open>
  A handler body either sends a response or throws; the \<open>catch\<close> block that encloses
  every body turns a thrown error into a 500 response carrying its message.
\<close>

datatype outcome = Threw string | Sent response

definition send :: "response \<Rightarrow> world \<Rightarrow> outcome \<times> world" where
  "send r w = (Sent r, emit (Respond r) w)"

definition error_body :: "json \<Rightarrow> json" where
  "error_body v = JObj [(''error'', v)]"

definition catch_500 :: "outcome \<times> world \<Rightarrow> response \<times> world" where
  "catch_500 ow =
     (case ow of
        (Sent r, w) \<Rightarrow> (r, w)
      | (Threw message, w) \<Rightarrow>
          (Json 500 (error_body (JStr message)),
           emit (Respond (Json 500 (error_body (JStr message)))) w))"

text \<open>\<open>fs.unlinkSync\<close>: removes the file, or throws when there is none.\<close>

definition unlinkSync :: "string \<Rightarrow> world \<Rightarrow> string option \<times> world" where
  "unlinkSync p w =
     (if p \<in> files w then (None, (emit (Unlink p) w)\<lparr>files := files w - {p}\<rparr>)
      else (Some (''ENOENT: no such file or directory, unlink '' @ [CHR 0x27] @ p @ [CHR 0x27]), w))"

text \<open>\<open>if (fs.existsSync(p)) { fs.unlinkSync(p); }\<close>\<close>

definition unlink_if_exists :: "string \<Rightarrow> world \<Rightarrow> world" where
  "unlink_if_exists p w = (if p \<in> files w then snd (unlinkSync p w) else w)"

definition encryptionScript :: "env \<Rightarrow> string" where
  "encryptionScript e = path_join e [dirname e, ''../python/encryption.py'']"

definition metricsScript :: "env \<Rightarrow> string" where
  "metricsScript e = path_join e [dirname e, ''../python/metrics_analyzer.py'']"

definition stegoScript :: "env \<Rightarrow> string" where
  "stegoScript e = path_join e [dirname e, ''../python/steganography.py'']"

subsection \<open>POST /encrypt\<close>

text \<open>The initial value of \<open>calculatedMetrics\<close>, in both encrypting routes.\<close>

definition default_metrics :: "int \<Rightarrow> (string \<times> json) list" where
  "default_metrics elapsed =
     [(''encryptionTime'', JNum (of_int elapsed)),
      (''entropy'', JObj [(''original'', JNum 0), (''encrypted'', JNum 0)]),
      (''NPCR'', JNum 0),
      (''UACI'', JNum 0),
      (''correlation'', JNum 0),
      (''PSNR'', JNum 0),
      (''MSE'', JNum 0)]"

text \<open>
  Step 2 of the route: the inner \<open>try\<close> around the metrics script. Whatever is thrown
  inside it is caught and logged, and \<open>calculatedMetrics\<close> keeps its initial value.
\<close>

definition encryption_metrics ::
  "env \<Rightarrow> string \<Rightarrow> json option \<Rightarrow> int \<Rightarrow> world \<Rightarrow> (string \<times> json) list \<times> world" where
  "encryption_metrics e imagePath stored_path elapsed w =
     (case runPythonScript e (metricsScript e)
             [Some (JStr ''encryption''), Some (JStr imagePath), stored_path] w of
        (Inl metricsError, w') \<Rightarrow> (default_metrics elapsed, w')
      | (Inr metricsResult, w') \<Rightarrow>
         (case read_prop metricsResult ''success'' of
            Inl metricsError \<Rightarrow> (default_metrics elapsed, w')
          | Inr success \<Rightarrow>
             if truthy success
             then ([(''encryptionTime'', JNum (of_int elapsed)),
                    (''entropy'', or_else (get metricsResult ''entropy'')
                                    (JObj [(''original'', JNum 0), (''encrypted'', JNum 0)])),
                    (''NPCR'', or_else (get metricsResult ''npcr'') (JNum 0)),
                    (''UACI'', or_else (get metricsResult ''uaci'') (JNum 0)),
                    (''correlation'', or_else (get metricsResult ''correlation'') (JNum 0)),
                    (''PSNR'', JNum 0),
                    (''MSE'', JNum 0)], w')
             else (default_metrics elapsed, w')))"

definition encrypt_args ::
  "upload \<Rightarrow> field option \<Rightarrow> field \<Rightarrow> json option list option" where
  "encrypt_args f key map_name =
     those [Some (Some (JStr ''encrypt'')), Some (Some (JStr (path f))), form_arg key,
            form_arg (Some map_name)]"

text \<open>The name given to the output, and the object handed to \<open>new EncryptedImage\<close>.\<close>

definition encrypted_name :: "env \<Rightarrow> upload \<Rightarrow> string" where
  "encrypted_name e f =
     (let originalName = originalname f;
          baseName = path_basename_ext e originalName (path_extname e originalName);
          timestamp = now_stamp e
      in baseName @ ''_encrypted_'' @ dec timestamp @ ''.bin'')"

definition encrypt_newImage ::
  "env \<Rightarrow> upload \<Rightarrow> field \<Rightarrow> json option \<Rightarrow> (string \<times> json) list \<Rightarrow> image_fields" where
  "encrypt_newImage e f map_name stored_path calculatedMetrics =
     \<lparr>f_originalName = originalname f,
      f_encryptedName = encrypted_name e f,
      f_encryptedPath = stored_path,
      f_originalPath = path f,
      f_size = size_u f,
      f_mimeType = mimetype f,
      f_chaoticMap = map_name,
      f_encryptionType = ''basic'',
      f_status = ''completed'',
      f_metrics = calculatedMetrics\<rparr>"

text \<open>The body of the route's last \<open>res.json\<close>.\<close>

definition encrypt_ok_body :: "nat \<Rightarrow> string \<Rightarrow> int \<Rightarrow> (string \<times> json) list \<Rightarrow> json" where
  "encrypt_ok_body image_id name elapsed_ms calculatedMetrics =
     JObj [(''success'', JBool True),
           (''message'', JStr ''Image encrypted successfully''),
           (''imageId'', JNum (of_nat image_id)),
           (''encryptedName'', JStr name),
           (''encryptionTime'', JNum (of_int elapsed_ms)),
           (''metrics'', JObj calculatedMetrics)]"

text \<open>
  Steps 2 and 3 of the route, reached once step 1 has reported success: metrics, the
  document, the response. \<open>startTime\<close> was read on entry, \<open>Date.now()\<close> is read
  again here.
\<close>

definition encrypt_complete ::
  "env \<Rightarrow> upload \<Rightarrow> field \<Rightarrow> json \<Rightarrow> world \<Rightarrow> outcome \<times> world" where
  "encrypt_complete e f map_name encryptResult w1 =
     (let startTime = now_start e;
          encryptedName = encrypted_name e f;
          encryptionTime = int (now_done e) - int startTime;
          stored_path = get encryptResult ''encrypted_path''
      in case encryption_metrics e (path f) stored_path encryptionTime w1 of
           (calculatedMetrics, w2) \<Rightarrow>
            (case save e (encrypt_newImage e f map_name stored_path calculatedMetrics) w2 of
               (Inl message, w3) \<Rightarrow> (Threw message, w3)
             | (Inr image_id, w3) \<Rightarrow>
                 send (Json 200 (encrypt_ok_body image_id encryptedName encryptionTime
                                   calculatedMetrics)) w3))"

text \<open>The destructuring default \<open>chaoticMap = 'logistic'\<close>.\<close>

definition map_or_default :: "field option \<Rightarrow> field" where
  "map_or_default chaoticMap_field =
     (case chaoticMap_field of None \<Rightarrow> FText ''logistic'' | Some m \<Rightarrow> m)"

text \<open>
  \<open>key.length < 8\<close> on a field: \<open>key.length\<close> is the number of characters of a
  string, the number of elements of an array, and for an object whatever the form
  put under \<open>length\<close>, compared with 8 by the language (\<open>less_than\<close>); a
  \<open>length\<close> that is absent is \<open>undefined\<close>, which is not less than 8.
\<close>

definition length_below_8 :: "env \<Rightarrow> field \<Rightarrow> bool" where
  "length_below_8 e v =
     (case v of
        FText s \<Rightarrow> length s < 8
      | FArr xs \<Rightarrow> length xs < 8
      | FObj kvs \<Rightarrow> (case map_of kvs ''length'' of None \<Rightarrow> False | Some n \<Rightarrow> less_than e n 8))"

text \<open>\<open>!key || key.length < 8\<close>\<close>

definition key_refused :: "env \<Rightarrow> field option \<Rightarrow> bool" where
  "key_refused e key =
     (\<not> truthy_field key \<or> (case key of None \<Rightarrow> False | Some v \<Rightarrow> length_below_8 e v))"

text \<open>Validation and step 1.\<close>

definition encrypt_try ::
  "env \<Rightarrow> upload option \<Rightarrow> field option \<Rightarrow> field option \<Rightarrow> world \<Rightarrow> outcome \<times> world" where
  "encrypt_try e file key chaoticMap_field w =
     (case file of
        None \<Rightarrow> send (Json 400 (error_body (JStr ''No image file uploaded''))) w
      | Some f \<Rightarrow>
         if key_refused e key
         then send (Json 400 (error_body (JStr ''Key must be at least 8 characters''))) w
         else
          (case invoke e (encryptionScript e)
                     (encrypt_args f key (map_or_default chaoticMap_field)) w of
                (Inl message, w1) \<Rightarrow> (Threw message, w1)
              | (Inr encryptResult, w1) \<Rightarrow>
                 (case read_prop encryptResult ''success'' of
                    Inl message \<Rightarrow> (Threw message, w1)
                  | Inr success \<Rightarrow>
                     if \<not> truthy success
                     then send (Json 500 (error_body
                                  (or_else (get encryptResult ''error'')
                                     (JStr ''Encryption failed'')))) w1
                     else encrypt_complete e f (map_or_default chaoticMap_field)
                            encryptResult w1)))"

definition post_encrypt ::
  "env \<Rightarrow> upload option \<Rightarrow> field option \<Rightarrow> field option \<Rightarrow> world \<Rightarrow> response \<times> world" where
  "post_encrypt e file key chaoticMap_field w = catch_500 (encrypt_try e file key chaoticMap_field w)"

subsection \<open>POST /decrypt and POST /decrypt-stego\<close>

text \<open>
  The callback of \<open>res.download\<close>, run when the transfer has ended, whether it
  failed or not.
\<close>

definition download_cleanup :: "string \<Rightarrow> string \<Rightarrow> world \<Rightarrow> world" where
  "download_cleanup stagedPath decryptedPath w =
     unlink_if_exists decryptedPath (unlink_if_exists stagedPath w)"

definition decrypt_args :: "upload \<Rightarrow> field option \<Rightarrow> json option list option" where
  "decrypt_args f key =
     those [Some (Some (JStr ''decrypt'')), Some (Some (JStr (path f))), form_arg key]"

text \<open>
  The two handlers are the same code up to the script they run and the texts they
  send, so the body is written once over those. \<open>fs.existsSync\<close> of a value that is
  not a string is false.
\<close>

definition decrypt_body ::
  "env \<Rightarrow> string \<Rightarrow> string \<Rightarrow> string \<Rightarrow> string \<Rightarrow> string \<Rightarrow>
   upload option \<Rightarrow> field option \<Rightarrow> world \<Rightarrow> outcome \<times> world" where
  "decrypt_body e pythonScript no_file failed not_found download_name file key w =
     (case file of
        None \<Rightarrow> send (Json 400 (error_body (JStr no_file))) w
      | Some f \<Rightarrow>
         if \<not> truthy_field key
         then send (Json 400 (error_body (JStr ''Decryption key required''))) w
         else
          (let stagedPath = path f
           in case invoke e pythonScript (decrypt_args f key) w of
                (Inl message, w1) \<Rightarrow> (Threw message, w1)
              | (Inr result, w1) \<Rightarrow>
                 (case read_prop result ''success'' of
                    Inl message \<Rightarrow> (Threw message, w1)
                  | Inr success \<Rightarrow>
                     if \<not> truthy success
                     then send (Json 500 (JObj
                                 [(''error'', or_else (get result ''error'') (JStr failed)),
                                  (''hint'', JStr ''Make sure you are using the correct encryption key'')]))
                               (snd (unlinkSync stagedPath w1))
                     else
                      (case get result ''decrypted_path'' of
                         Some (JStr decryptedPath) \<Rightarrow>
                           if decryptedPath \<notin> files w1 then (Threw not_found, w1)
                           else (Sent (Download decryptedPath download_name),
                                 download_cleanup stagedPath decryptedPath
                                   (emit (Respond (Download decryptedPath download_name)) w1))
                       | _ \<Rightarrow> (Threw not_found, w1)))))"

definition decrypt_try :: "env \<Rightarrow> upload option \<Rightarrow> field option \<Rightarrow> world \<Rightarrow> outcome \<times> world" where
  "decrypt_try e file key w =
     decrypt_body e (encryptionScript e) ''No file uploaded'' ''Decryption failed''
       ''Decrypted file not found'' ''decrypted_image.png'' file key w"

definition post_decrypt :: "env \<Rightarrow> upload option \<Rightarrow> field option \<Rightarrow> world \<Rightarrow> response \<times> world" where
  "post_decrypt e file key w = catch_500 (decrypt_try e file key w)"

definition decrypt_stego_try ::
  "env \<Rightarrow> upload option \<Rightarrow> field option \<Rightarrow> world \<Rightarrow> outcome \<times> world" where
  "decrypt_stego_try e file key w =
     decrypt_body e (stegoScript e) ''No stego image uploaded'' ''Extraction failed''
       ''Extracted file not found'' ''extracted_secret.png'' file key w"

definition post_decrypt_stego ::
  "env \<Rightarrow> upload option \<Rightarrow> field option \<Rightarrow> world \<Rightarrow> response \<times> world" where
  "post_decrypt_stego e file key w = catch_500 (decrypt_stego_try e file key w)"

subsection \<open>POST /encrypt-stego\<close>

text \<open>Step 2 of the route: only \<open>PSNR\<close> and \<open>MSE\<close> are assigned.\<close>

definition stego_metrics ::
  "env \<Rightarrow> string \<Rightarrow> string \<Rightarrow> int \<Rightarrow> world \<Rightarrow> (string \<times> json) list \<times> world" where
  "stego_metrics e coverPath stegoPath elapsed w =
     (case runPythonScript e (metricsScript e)
             [Some (JStr ''steganography''), Some (JStr coverPath), Some (JStr stegoPath)] w of
        (Inl metricsError, w') \<Rightarrow> (default_metrics elapsed, w')
      | (Inr metricsResult, w') \<Rightarrow>
         (case read_prop metricsResult ''success'' of
            Inl metricsError \<Rightarrow> (default_metrics elapsed, w')
          | Inr success \<Rightarrow>
             if truthy success
             then (AList.update ''MSE'' (or_else (get metricsResult ''mse'') (JNum 0))
                     (AList.update ''PSNR'' (or_else (get metricsResult ''psnr'') (JNum 0))
                        (default_metrics elapsed)), w')
             else (default_metrics elapsed, w')))"

definition stego_args ::
  "upload \<Rightarrow> upload \<Rightarrow> field option \<Rightarrow> field \<Rightarrow> json option list option" where
  "stego_args secret cover key map_name =
     those [Some (Some (JStr ''encrypt'')), Some (Some (JStr (path secret))),
            Some (Some (JStr (path cover))), form_arg key, form_arg (Some map_name)]"

definition stego_newImage ::
  "upload \<Rightarrow> field \<Rightarrow> string \<Rightarrow> string \<Rightarrow> (string \<times> json) list \<Rightarrow> image_fields" where
  "stego_newImage secret map_name stegoName stegoPath calculatedMetrics =
     \<lparr>f_originalName = originalname secret,
      f_encryptedName = stegoName,
      f_encryptedPath = Some (JStr stegoPath),
      f_originalPath = path secret,
      f_size = size_u secret,
      f_mimeType = mimetype secret,
      f_chaoticMap = map_name,
      f_encryptionType = ''steganography'',
      f_status = ''completed'',
      f_metrics = calculatedMetrics\<rparr>"

text \<open>
  \<open>req.files\<close> is absent or holds, for each of the two fields, the one file uploaded
  under it. \<open>path.basename\<close> throws a TypeError on anything but a string. As in
  \<open>/encrypt\<close>, what follows the success of step 1 is written apart.
\<close>

definition stego_ok_body :: "nat \<Rightarrow> string \<Rightarrow> int \<Rightarrow> (string \<times> json) list \<Rightarrow> json" where
  "stego_ok_body image_id name elapsed_ms calculatedMetrics =
     JObj [(''success'', JBool True),
           (''message'', JStr ''Triple-layer steganography successful''),
           (''imageId'', JNum (of_nat image_id)),
           (''stegoName'', JStr name),
           (''encryptionTime'', JNum (of_int elapsed_ms)),
           (''metrics'', JObj calculatedMetrics)]"

definition stego_complete ::
  "env \<Rightarrow> upload \<Rightarrow> upload \<Rightarrow> field \<Rightarrow> json \<Rightarrow> world \<Rightarrow> outcome \<times> world" where
  "stego_complete e secretImage coverImage map_name stegoResult w1 =
     (let startTime = now_start e;
          encryptionTime = int (now_done e) - int startTime
      in case get stegoResult ''stego_path'' of
           Some (JStr stegoPath) \<Rightarrow>
            (let stegoName = path_basename e stegoPath
             in case stego_metrics e (path coverImage) stegoPath encryptionTime w1 of
                  (calculatedMetrics, w2) \<Rightarrow>
                   (case save e (stego_newImage secretImage map_name stegoName stegoPath
                                   calculatedMetrics) w2 of
                      (Inl message, w3) \<Rightarrow> (Threw message, w3)
                    | (Inr image_id, w3) \<Rightarrow>
                        send (Json 200 (stego_ok_body image_id stegoName encryptionTime
                                          calculatedMetrics)) w3))
         | other \<Rightarrow> (Threw (invalid_arg_message e other), w1))"

definition encrypt_stego_try ::
  "env \<Rightarrow> (upload option \<times> upload option) option \<Rightarrow> field option \<Rightarrow> field option \<Rightarrow>
   world \<Rightarrow> outcome \<times> world" where
  "encrypt_stego_try e req_files key chaoticMap_field w =
     (case req_files of
        Some (Some secretImage, Some coverImage) \<Rightarrow>
         if key_refused e key
         then send (Json 400 (error_body (JStr ''Key must be at least 8 characters''))) w
         else
          (case invoke e (stegoScript e)
                     (stego_args secretImage coverImage key (map_or_default chaoticMap_field)) w of
                (Inl message, w1) \<Rightarrow> (Threw message, w1)
              | (Inr stegoResult, w1) \<Rightarrow>
                 (case read_prop stegoResult ''success'' of
                    Inl message \<Rightarrow> (Threw message, w1)
                  | Inr success \<Rightarrow>
                     if \<not> truthy success
                     then send (Json 500 (error_body
                                  (or_else (get stegoResult ''error'')
                                     (JStr ''Steganography failed'')))) w1
                     else stego_complete e secretImage coverImage
                            (map_or_default chaoticMap_field) stegoResult w1))
      | _ \<Rightarrow> send (Json 400 (error_body (JStr ''Both secret and cover images required''))) w)"

definition post_encrypt_stego ::
  "env \<Rightarrow> (upload option \<times> upload option) option \<Rightarrow> field option \<Rightarrow> field option \<Rightarrow>
   world \<Rightarrow> response \<times> world" where
  "post_encrypt_stego e req_files key chaoticMap_field w =
     catch_500 (encrypt_stego_try e req_files key chaoticMap_field w)"

subsection \<open>DELETE /images/:id and the two downloads\<close>

definition delete_image_try :: "env \<Rightarrow> nat \<Rightarrow> world \<Rightarrow> outcome \<times> world" where
  "delete_image_try e i w =
     (case findByIdAndDelete e i w of
        (Inl message, w1) \<Rightarrow> (Threw message, w1)
      | (Inr None, w1) \<Rightarrow> send (Json 404 (error_body (JStr ''Image not found''))) w1
      | (Inr (Some img), w1) \<Rightarrow>
         (let w2 = unlink_if_exists (encryptedPath img) w1;
              w3 = (case originalPath img of
                      None \<Rightarrow> w2
                    | Some p \<Rightarrow> if p \<noteq> [] then unlink_if_exists p w2 else w2)
          in send (Json 200 (JObj [(''success'', JBool True),
                                   (''message'', JStr ''Image deleted'')])) w3))"

definition delete_image :: "env \<Rightarrow> nat \<Rightarrow> world \<Rightarrow> response \<times> world" where
  "delete_image e i w = catch_500 (delete_image_try e i w)"

definition download_try :: "env \<Rightarrow> nat \<Rightarrow> world \<Rightarrow> outcome \<times> world" where
  "download_try e i w =
     (case findById e i w of
        Inl message \<Rightarrow> (Threw message, w)
      | Inr None \<Rightarrow> send (Json 404 (error_body (JStr ''Image not found''))) w
      | Inr (Some img) \<Rightarrow> send (Download (encryptedPath img) (encryptedName img)) w)"

definition get_download :: "env \<Rightarrow> nat \<Rightarrow> world \<Rightarrow> response \<times> world" where
  "get_download e i w = catch_500 (download_try e i w)"

definition download_stego_try :: "env \<Rightarrow> nat \<Rightarrow> world \<Rightarrow> outcome \<times> world" where
  "download_stego_try e i w =
     (case findById e i w of
        Inl message \<Rightarrow> (Threw message, w)
      | Inr None \<Rightarrow> send (Json 404 (error_body (JStr ''Image not found''))) w
      | Inr (Some img) \<Rightarrow>
         if encryptionType img \<noteq> ''steganography''
         then send (Json 400 (error_body (JStr ''Not a steganography image''))) w
         else send (Download (encryptedPath img) ''stego_image.png'') w)"

definition get_download_stego :: "env \<Rightarrow> nat \<Rightarrow> world \<Rightarrow> response \<times> world" where
  "get_download_stego e i w = catch_500 (download_stego_try e i w)"

subsection \<open>Requests one after another\<close>

text \<open>
  The routes that write to the store or to the disk, and the two downloads. The
  remaining routes (\<open>GET /images\<close>, \<open>/test-metrics\<close>, and those of
  \<open>routes/metrics.js\<close> and \<open>routes/admin.js\<close>) only read the store.
\<close>

datatype request =
    PostEncrypt "upload option" "field option" "field option"
  | PostDecrypt "upload option" "field option"
  | PostEncryptStego "(upload option \<times> upload option) option" "field option" "field option"
  | PostDecryptStego "upload option" "field option"
  | DeleteImage nat
  | GetDownload nat
  | GetDownloadStego nat

fun handle :: "env \<Rightarrow> request \<Rightarrow> world \<Rightarrow> response \<times> world" where
  "handle e (PostEncrypt file key m) w = post_encrypt e file key m w"
| "handle e (PostDecrypt file key) w = post_decrypt e file key w"
| "handle e (PostEncryptStego fs key m) w = post_encrypt_stego e fs key m w"
| "handle e (PostDecryptStego file key) w = post_decrypt_stego e file key w"
| "handle e (DeleteImage i) w = delete_image e i w"
| "handle e (GetDownload i) w = get_download e i w"
| "handle e (GetDownloadStego i) w = get_download_stego e i w"

text \<open>Each request meets its own surroundings.\<close>

fun run :: "(env \<times> request) list \<Rightarrow> world \<Rightarrow> world" where
  "run [] w = w"
| "run ((e, rq) # rest) w = run rest (snd (handle e rq w))"

definition fresh :: world where
  "fresh = \<lparr>files = {}, db = [], next_id = 0, events = []\<rparr>"

section \<open>Words for the stages of a request\<close>

text \<open>
  Step 1 of each route, the call of the transformation script, and what it means for
  such a call to report success: the promise resolves with a payload whose
  \<open>success\<close> is truthy. A call of the metrics script fails when it does not report
  success in this sense.
\<close>

definition reports_success :: "string + json \<Rightarrow> bool" where
  "reports_success res =
     (case res of Inl message \<Rightarrow> False
      | Inr payload \<Rightarrow> payload \<noteq> JNull \<and> truthy (get payload ''success''))"

definition encrypt_transformation ::
  "env \<Rightarrow> upload \<Rightarrow> field option \<Rightarrow> field option \<Rightarrow> world \<Rightarrow> (string + json) \<times> world" where
  "encrypt_transformation e f key chaoticMap_field w =
     invoke e (encryptionScript e)
       (encrypt_args f key (map_or_default chaoticMap_field)) w"

definition stego_transformation ::
  "env \<Rightarrow> upload \<Rightarrow> upload \<Rightarrow> field option \<Rightarrow> field option \<Rightarrow> world \<Rightarrow>
   (string + json) \<times> world" where
  "stego_transformation e secret cover key chaoticMap_field w =
     invoke e (stegoScript e)
       (stego_args secret cover key (map_or_default chaoticMap_field)) w"

definition decrypt_transformation ::
  "env \<Rightarrow> upload \<Rightarrow> field option \<Rightarrow> world \<Rightarrow> (string + json) \<times> world" where
  "decrypt_transformation e f key w =
     invoke e (encryptionScript e) (decrypt_args f key) w"

definition extract_transformation ::
  "env \<Rightarrow> upload \<Rightarrow> field option \<Rightarrow> world \<Rightarrow> (string + json) \<times> world" where
  "extract_transformation e f key w = invoke e (stegoScript e) (decrypt_args f key) w"

text \<open>Step 2 of the two encrypting routes: the call of the metrics script.\<close>

definition encrypt_measurement ::
  "env \<Rightarrow> upload \<Rightarrow> json \<Rightarrow> world \<Rightarrow> (string + json) \<times> world" where
  "encrypt_measurement e f encryptResult w1 =
     runPythonScript e (metricsScript e)
       [Some (JStr ''encryption''), Some (JStr (path f)), get encryptResult ''encrypted_path''] w1"

definition stego_measurement ::
  "env \<Rightarrow> upload \<Rightarrow> string \<Rightarrow> world \<Rightarrow> (string + json) \<times> world" where
  "stego_measurement e cover stegoPath w1 =
     runPythonScript e (metricsScript e)
       [Some (JStr ''steganography''), Some (JStr (path cover)), Some (JStr stegoPath)] w1"

text \<open>The elapsed time the encrypting routes measure.\<close>

definition elapsed :: "env \<Rightarrow> int" where
  "elapsed e = int (now_done e) - int (now_start e)"

section \<open>Concrete surroundings\<close>

text \<open>
  Some fixed surroundings to run the handlers in. The library functions answer as
  Node's do on the few arguments they meet here; \<open>JSON_parse\<close> knows the
  payloads below.
\<close>

definition quoted :: "string \<Rightarrow> string" where
  "quoted s = [CHR 0x22] @ s @ [CHR 0x22]"

definition encrypted_text :: string where
  "encrypted_text =
     ''{'' @ quoted ''success'' @ '': true, '' @ quoted ''encrypted_path'' @ '': ''
       @ quoted ''/tmp/uploads/encrypted/cat.bin'' @ ''}''"

definition measured_text :: string where
  "measured_text =
     ''{'' @ quoted ''success'' @ '': true, '' @ quoted ''npcr'' @ '': 99.6, ''
       @ quoted ''uaci'' @ '': 33.4}''"

definition decrypted_text :: string where
  "decrypted_text =
     ''{'' @ quoted ''success'' @ '': true, '' @ quoted ''decrypted_path'' @ '': ''
       @ quoted ''/tmp/uploads/decrypted/cat.png'' @ ''}''"

definition refused_text :: string where
  "refused_text =
     ''{'' @ quoted ''success'' @ '': false, '' @ quoted ''error'' @ '': ''
       @ quoted ''Invalid padding'' @ ''}''"

definition hidden_text :: string where
  "hidden_text =
     ''{'' @ quoted ''success'' @ '': true, '' @ quoted ''stego_path'' @ '': ''
       @ quoted ''/tmp/uploads/stego/cat_stego.png'' @ ''}''"

definition compared_text :: string where
  "compared_text =
     ''{'' @ quoted ''success'' @ '': true, '' @ quoted ''psnr'' @ '': 51.2, ''
       @ quoted ''mse'' @ '': 0.5}''"

text \<open>A metrics payload that reports success and carries a text where a number belongs.\<close>

definition garbled_text :: string where
  "garbled_text =
     ''{'' @ quoted ''success'' @ '': true, '' @ quoted ''entropy'' @ '': {''
       @ quoted ''original'' @ '': '' @ quoted ''n/a'' @ ''}}''"

definition parse_known :: "string \<Rightarrow> json option" where
  "parse_known s =
     map_of
       [(encrypted_text,
           JObj [(''success'', JBool True),
                 (''encrypted_path'', JStr ''/tmp/uploads/encrypted/cat.bin'')]),
        (measured_text,
           JObj [(''success'', JBool True), (''npcr'', JNum (996 / 10)), (''uaci'', JNum (334 / 10))]),
        (decrypted_text,
           JObj [(''success'', JBool True),
                 (''decrypted_path'', JStr ''/tmp/uploads/decrypted/cat.png'')]),
        (refused_text,
           JObj [(''success'', JBool False), (''error'', JStr ''Invalid padding'')]),
        (hidden_text,
           JObj [(''success'', JBool True),
                 (''stego_path'', JStr ''/tmp/uploads/stego/cat_stego.png'')]),
        (compared_text,
           JObj [(''success'', JBool True), (''psnr'', JNum (512 / 10)), (''mse'', JNum (1 / 2))]),
        (garbled_text,
           JObj [(''success'', JBool True), (''entropy'', JObj [(''original'', JStr ''n/a'')])])] s"

definition join_known :: "string list \<Rightarrow> string" where
  "join_known parts =
     (if parts = [''/app/routes'', ''../python/encryption.py''] then ''/app/python/encryption.py''
      else if parts = [''/app/routes'', ''../python/metrics_analyzer.py'']
        then ''/app/python/metrics_analyzer.py''
      else if parts = [''/app/routes'', ''../python/steganography.py'']
        then ''/app/python/steganography.py''
      else join ''/'' parts)"

definition silent :: exec_result where
  "silent = \<lparr>error = None, stdout = [], stderr = [], written = []\<rparr>"

text \<open>Surroundings in which every child process prints nothing and exits with 0.\<close>

definition quiet_env :: env where
  "quiet_env =
     \<lparr>RENDER = True, platform = ''linux'', dirname = ''/app/routes'',
      exec = (\<lambda>command opts. silent),
      JSON_parse = parse_known,
      ToString = (\<lambda>v. ''undefined''),
      less_than = (\<lambda>v n. False),
      castString = (\<lambda>v. None),
      castField = (\<lambda>v. None),
      castNumber = (\<lambda>v. None),
      validation_message = ''EncryptedImage validation failed'',
      invalid_arg_message = (\<lambda>v. ''The path argument must be of type string. Received undefined''),
      path_join = join_known,
      path_basename =
        (\<lambda>p. if p = ''/tmp/uploads/stego/cat_stego.png'' then ''cat_stego.png'' else p),
      path_basename_ext = (\<lambda>p ext. if p = ''cat.png'' \<and> ext = ''.png'' then ''cat'' else p),
      path_extname = (\<lambda>p. if p = ''cat.png'' then ''.png'' else []),
      now_upload = 1700000000000,
      random_upload = 42,
      now_start = 1700000000100,
      now_stamp = 1700000000101,
      now_done = 1700000000350,
      now_doc = 1700000000360,
      store_error = None,
      find_error = None\<rparr>"

text \<open>
  Every child process exits with 1; with and without text on stderr. The message of
  the error object is \<open>Command failed:\<close>, the command, a line feed and the text of
  stderr, as \<open>exec\<close> builds it.
\<close>

definition crash_env :: env where
  "crash_env =
     quiet_env\<lparr>exec := (\<lambda>command opts.
        \<lparr>error = Some (''Command failed: '' @ command @ [CHR 0x0A]
                         @ ''Traceback (most recent call last)''),
         stdout = [], stderr = ''Traceback (most recent call last)'', written = []\<rparr>)\<rparr>"

definition mute_crash_env :: env where
  "mute_crash_env =
     quiet_env\<lparr>exec := (\<lambda>command opts.
        \<lparr>error = Some (''Command failed: '' @ command @ [CHR 0x0A]), stdout = [], stderr = [],
         written = []\<rparr>)\<rparr>"

text \<open>Every child process exits with 0 after printing a payload that reports failure.\<close>

definition refusing_env :: env where
  "refusing_env =
     quiet_env\<lparr>exec := (\<lambda>command opts. silent\<lparr>stdout := refused_text @ [CHR 0x0A]\<rparr>)\<rparr>"

definition cat_upload :: upload where
  "cat_upload =
     \<lparr>path = ''/tmp/uploads/original/1700000000000-42-cat.png'', originalname = ''cat.png'',
      mimetype = ''image/png'', size_u = 10240\<rparr>"

definition cover_upload :: upload where
  "cover_upload =
     \<lparr>path = ''/tmp/uploads/original/1700000000001-77-beach.png'', originalname = ''beach.png'',
      mimetype = ''image/png'', size_u = 51200\<rparr>"

definition staged :: world where
  "staged = fresh\<lparr>files := {''/tmp/uploads/original/1700000000000-42-cat.png''}\<rparr>"

text \<open>
  Surroundings in which the scripts do their work on the upload above with the key
  \<open>abcdefgh\<close>: the encryption writes its output and reports it, the metrics script
  reports NPCR and UACI, the decryption writes the recovered image; and the
  steganography script hides the upload in a cover image, for which the metrics
  script reports PSNR and MSE.
\<close>

definition encrypt_command :: string where
  "encrypt_command =
     python_command quiet_env (encryptionScript quiet_env)
       [Some (JStr ''encrypt''), Some (JStr (path cat_upload)), Some (JStr ''abcdefgh''),
        Some (JStr ''tent'')]"

definition measure_command :: string where
  "measure_command =
     python_command quiet_env (metricsScript quiet_env)
       [Some (JStr ''encryption''), Some (JStr (path cat_upload)),
        Some (JStr ''/tmp/uploads/encrypted/cat.bin'')]"

definition decrypt_command :: string where
  "decrypt_command =
     python_command quiet_env (encryptionScript quiet_env)
       [Some (JStr ''decrypt''), Some (JStr (path cat_upload)), Some (JStr ''abcdefgh'')]"

definition hide_command :: string where
  "hide_command =
     python_command quiet_env (stegoScript quiet_env)
       [Some (JStr ''encrypt''), Some (JStr (path cat_upload)), Some (JStr (path cover_upload)),
        Some (JStr ''abcdefgh''), Some (JStr ''logistic'')]"

definition compare_command :: string where
  "compare_command =
     python_command quiet_env (metricsScript quiet_env)
       [Some (JStr ''steganography''), Some (JStr (path cover_upload)),
        Some (JStr ''/tmp/uploads/stego/cat_stego.png'')]"

definition happy_env :: env where
  "happy_env =
     quiet_env\<lparr>exec := (\<lambda>command opts.
        if command = encrypt_command
        then silent\<lparr>stdout := encrypted_text, written := [''/tmp/uploads/encrypted/cat.bin'']\<rparr>
        else if command = measure_command then silent\<lparr>stdout := measured_text\<rparr>
        else if command = decrypt_command
        then silent\<lparr>stdout := decrypted_text, written := [''/tmp/uploads/decrypted/cat.png'']\<rparr>
        else if command = hide_command
        then silent\<lparr>stdout := hidden_text, written := [''/tmp/uploads/stego/cat_stego.png'']\<rparr>
        else if command = compare_command then silent\<lparr>stdout := compared_text\<rparr>
        else silent)\<rparr>"

text \<open>The same, but the metrics script is killed at the deadline.\<close>

definition blind_env :: env where
  "blind_env =
     happy_env\<lparr>exec := (\<lambda>command opts.
        if command = measure_command \<or> command = compare_command
        then \<lparr>error = Some (''Command failed: '' @ command @ [CHR 0x0A]), stdout = [],
              stderr = [], written = []\<rparr>
        else exec happy_env command opts)\<rparr>"

text \<open>The same two, with a store that cannot be reached.\<close>

definition offline_env :: env where
  "offline_env = happy_env\<lparr>store_error := Some ''connect ECONNREFUSED 127.0.0.1:27017''\<rparr>"

definition blind_offline_env :: env where
  "blind_offline_env = blind_env\<lparr>store_error := Some ''connect ECONNREFUSED 127.0.0.1:27017''\<rparr>"

text \<open>The document the encryption of the upload leaves in the store.\<close>

definition cat_doc :: encrypted_image where
  "cat_doc =
     \<lparr>originalName = ''cat.png'',
      encryptedName = ''cat_encrypted_1700000000101.bin'',
      encryptedPath = ''/tmp/uploads/encrypted/cat.bin'',
      originalPath = Some ''/tmp/uploads/original/1700000000000-42-cat.png'',
      size_d = 10240,
      mimeType = ''image/png'',
      chaoticMap = ''tent'',
      encryptionType = ''basic'',
      uploadDate = 1700000000360,
      metrics = \<lparr>encryptionTime = Some 250, entropy_original = Some 0,
                 entropy_encrypted = Some 0, npcr = Some 0, uaci = Some 0\<rparr>,
      status = ''completed''\<rparr>"

text \<open>The document the hiding of the upload leaves in the store when no metrics came.\<close>

definition stego_doc :: encrypted_image where
  "stego_doc =
     \<lparr>originalName = ''cat.png'',
      encryptedName = ''cat_stego.png'',
      encryptedPath = ''/tmp/uploads/stego/cat_stego.png'',
      originalPath = Some ''/tmp/uploads/original/1700000000000-42-cat.png'',
      size_d = 10240,
      mimeType = ''image/png'',
      chaoticMap = ''logistic'',
      encryptionType = ''steganography'',
      uploadDate = 1700000000360,
      metrics = \<lparr>encryptionTime = Some 250, entropy_original = Some 0,
                 entropy_encrypted = Some 0, npcr = Some 0, uaci = Some 0\<rparr>,
      status = ''completed''\<rparr>"

text \<open>A store that holds that document and a steganographic one.\<close>

definition archive :: world where
  "archive =
     \<lparr>files = {''/tmp/uploads/original/1700000000000-42-cat.png'',
               ''/tmp/uploads/encrypted/cat.bin''},
      db = [(0, cat_doc),
            (1, cat_doc\<lparr>encryptionType := ''steganography'',
                         encryptedPath := ''/tmp/uploads/stego/cat_stego.png''\<rparr>)],
      next_id = 2, events = []\<rparr>"

text \<open>
  Surroundings in which the encryption script does its work and the metrics script
  prints the payload with the text \<open>n/a\<close>, which the record store cannot cast to
  a number; the ValidationError of \<open>save()\<close> then carries the message below.
\<close>

definition garbled_message :: string where
  "garbled_message =
     ''EncryptedImage validation failed: metrics.entropy.original: Cast to Number failed ''
       @ ''for value '' @ quoted ''n/a'' @ '' (type string) at path ''
       @ quoted ''metrics.entropy.original''"

definition garbled_env :: env where
  "garbled_env =
     happy_env\<lparr>exec := (\<lambda>command opts.
        if command = measure_command then silent\<lparr>stdout := garbled_text\<rparr>
        else exec happy_env command opts),
       validation_message := garbled_message\<rparr>"

text \<open>
  A form in which the field \<open>key\<close> comes eight times, each time empty: Multer
  delivers the array of the eight values. The script is handed its text, seven
  commas, and does its work with it.
\<close>

definition repeated_key :: "field option" where
  "repeated_key =
     Some (FArr [FText [], FText [], FText [], FText [], FText [], FText [], FText [],
                 FText []])"

definition comma_command :: string where
  "comma_command =
     python_command quiet_env (encryptionScript quiet_env)
       [Some (JStr ''encrypt''), Some (JStr (path cat_upload)), Some (JStr '',,,,,,,''),
        Some (JStr ''logistic'')]"

definition lenient_env :: env where
  "lenient_env =
     happy_env\<lparr>exec := (\<lambda>command opts.
        if command = comma_command
        then silent\<lparr>stdout := encrypted_text, written := [''/tmp/uploads/encrypted/cat.bin'']\<rparr>
        else exec happy_env command opts)\<rparr>"

text \<open>Two different incoming files under one name that holds a command substitution.\<close>

definition risky_file :: incoming where
  "risky_file = \<lparr>in_originalname = ''cat$(id).png'', in_mimetype = ''image/png'', in_size = 10240\<rparr>"

definition other_file :: incoming where
  "other_file = \<lparr>in_originalname = ''cat$(id).png'', in_mimetype = ''image/jpeg'', in_size = 2048\<rparr>"

section \<open>Facts about the stages\<close>

lemmas scenario_defs =
  quiet_env_def crash_env_def mute_crash_env_def refusing_env_def silent_def
  parse_known_def join_known_def encrypted_text_def measured_text_def decrypted_text_def
  refused_text_def quoted_def cat_upload_def staged_def fresh_def
  happy_env_def blind_env_def offline_env_def blind_offline_env_def
  encrypt_command_def measure_command_def decrypt_command_def cat_doc_def
  archive_def hidden_text_def compared_text_def cover_upload_def hide_command_def
  compare_command_def stego_doc_def garbled_text_def garbled_env_def
  repeated_key_def comma_command_def lenient_env_def risky_file_def other_file_def

lemmas invoker_defs =
  runPythonScript_def child_def python_command_def PYTHON_CMD_def getPythonCommand_def
  template_def exec_opts_def emit_def invocations_def trim_def is_space_def Let_def
  invoke_def form_arg_def conversion_error_def

lemmas route_defs =
  post_encrypt_def encrypt_try_def encrypt_complete_def encryption_metrics_def
  encrypt_newImage_def encrypted_name_def encrypt_ok_body_def encrypt_args_def map_or_default_def
  post_decrypt_def decrypt_try_def post_decrypt_stego_def decrypt_stego_try_def decrypt_body_def
  decrypt_args_def download_cleanup_def unlink_if_exists_def unlinkSync_def
  post_encrypt_stego_def encrypt_stego_try_def stego_complete_def stego_metrics_def
  stego_newImage_def stego_ok_body_def stego_args_def
  get_download_stego_def download_stego_try_def get_download_def download_try_def
  delete_image_def delete_image_try_def findById_def findByIdAndDelete_def
  catch_500_def send_def error_body_def read_prop_def or_else_def
  encryptionScript_def metricsScript_def stegoScript_def default_metrics_def
  save_def EncryptedImage_def schema_metrics_def schema_number_def schema_string_def
  key_refused_def length_below_8_def schema_field_def

subsection \<open>The invoker and the metrics steps\<close>

lemma run_db [simp]: "db (snd (runPythonScript e s a w)) = db w"
  by (simp add: runPythonScript_def Let_def emit_def split: option.splits)

lemma run_next_id [simp]: "next_id (snd (runPythonScript e s a w)) = next_id w"
  by (simp add: runPythonScript_def Let_def emit_def split: option.splits)

lemma run_events:
  "events (snd (runPythonScript e s a w)) = events w @ [Exec (python_command e s a) exec_opts]"
  by (simp add: runPythonScript_def Let_def emit_def split: option.splits)

lemma run_files:
  "files (snd (runPythonScript e s a w)) = files w \<union> set (written (child e s a))"
  by (simp add: runPythonScript_def child_def Let_def emit_def split: option.splits)

lemma invoke_db [simp]: "db (snd (invoke e s a w)) = db w"
  by (simp add: invoke_def split: option.splits)

lemma invoke_next_id [simp]: "next_id (snd (invoke e s a w)) = next_id w"
  by (simp add: invoke_def split: option.splits)

lemma invoke_files: "files w \<subseteq> files (snd (invoke e s a w))"
  by (auto simp add: invoke_def run_files split: option.splits)

lemma invoke_result_world:
  "invoke e s a w = (res, w1) \<Longrightarrow>
     db w1 = db w \<and> next_id w1 = next_id w \<and> files w \<subseteq> files w1"
  using invoke_db [of e s a w] invoke_next_id [of e s a w] invoke_files [of w e s a]
  by simp

lemma encryption_metrics_world:
  "snd (encryption_metrics e ip ep t w)
     = snd (runPythonScript e (metricsScript e)
              [Some (JStr ''encryption''), Some (JStr ip), ep] w)"
  by (simp add: encryption_metrics_def split: prod.splits sum.splits)

lemma encryption_metrics_failed:
  "\<not> reports_success (fst (runPythonScript e (metricsScript e)
       [Some (JStr ''encryption''), Some (JStr ip), ep] w))
   \<Longrightarrow> fst (encryption_metrics e ip ep t w) = default_metrics t"
  by (auto simp add: encryption_metrics_def reports_success_def read_prop_def
           split: prod.splits sum.splits)

lemma stego_metrics_world:
  "snd (stego_metrics e cp sp t w)
     = snd (runPythonScript e (metricsScript e)
              [Some (JStr ''steganography''), Some (JStr cp), Some (JStr sp)] w)"
  by (simp add: stego_metrics_def split: prod.splits sum.splits)

lemma stego_metrics_failed:
  "\<not> reports_success (fst (runPythonScript e (metricsScript e)
       [Some (JStr ''steganography''), Some (JStr cp), Some (JStr sp)] w))
   \<Longrightarrow> fst (stego_metrics e cp sp t w) = default_metrics t"
  by (auto simp add: stego_metrics_def reports_success_def read_prop_def
           split: prod.splits sum.splits)

subsection \<open>The document\<close>

lemma EncryptedImage_fields:
  "EncryptedImage e f = Some d \<Longrightarrow>
     status d = f_status f \<and> encryptionType d = f_encryptionType f
     \<and> schema_field e (f_chaoticMap f) = Some (chaoticMap d)
     \<and> schema_metrics e (f_metrics f) = Some (metrics d)"
  by (auto simp add: EncryptedImage_def split: option.splits if_splits)

lemma schema_metrics_default:
  "schema_metrics e (default_metrics t)
     = Some \<lparr>encryptionTime = Some (of_int t), entropy_original = Some 0,
             entropy_encrypted = Some 0, npcr = Some 0, uaci = Some 0\<rparr>"
  by (simp add: schema_metrics_def default_metrics_def schema_number_def)

lemma save_cases:
  "(\<exists>d. EncryptedImage e f = Some d \<and> store_error e = None \<and>
        save e f w = (Inr (next_id w),
                      (emit (Saved (next_id w)) w)
                        \<lparr>db := db w @ [(next_id w, d)], next_id := Suc (next_id w)\<rparr>))
   \<or> ((EncryptedImage e f = None \<or> store_error e \<noteq> None) \<and>
       (\<exists>message. save e f w = (Inl message, w)
           \<and> (message = validation_message e \<or> store_error e = Some message)))"
  by (auto simp add: save_def split: option.splits)

subsection \<open>Validation\<close>

lemma dec_eval: "dec 1700000000101 = ''1700000000101''"
  by (simp add: dec.simps digit_def)

lemma encrypt_try_no_file:
  "encrypt_try e None key m w = send (Json 400 (error_body (JStr ''No image file uploaded''))) w"
  by (simp add: encrypt_try_def)

lemma encrypt_try_short_key:
  "key_refused e key \<Longrightarrow>
   encrypt_try e (Some f) key m w
     = send (Json 400 (error_body (JStr ''Key must be at least 8 characters''))) w"
  by (simp add: encrypt_try_def)

lemma stego_try_missing:
  "\<forall>secret cover. req_files \<noteq> Some (Some secret, Some cover) \<Longrightarrow>
   encrypt_stego_try e req_files key m w
     = send (Json 400 (error_body (JStr ''Both secret and cover images required''))) w"
proof (cases req_files)
  case None
  then show ?thesis by (simp add: encrypt_stego_try_def)
next
  case (Some p)
  obtain a b where p: "p = (a, b)" by (cases p)
  assume "\<forall>secret cover. req_files \<noteq> Some (Some secret, Some cover)"
  with Some p have "a = None \<or> b = None" by (cases a; cases b) auto
  with Some p show ?thesis by (cases a) (auto simp add: encrypt_stego_try_def)
qed

lemma stego_try_short_key:
  "key_refused e key \<Longrightarrow>
   encrypt_stego_try e (Some (Some s, Some c)) key m w
     = send (Json 400 (error_body (JStr ''Key must be at least 8 characters''))) w"
  by (simp add: encrypt_stego_try_def)

lemma sent_400:
  "catch_500 (send (Json 400 (error_body (JStr message))) w)
     = (Json 400 (error_body (JStr message)), emit (Respond (Json 400 (error_body (JStr message)))) w)"
  by (simp add: catch_500_def send_def)

lemma invocations_emit_respond [simp]: "invocations (emit (Respond r) w) = invocations w"
  by (simp add: invocations_def emit_def)

subsection \<open>The decrypting routes\<close>

lemma decrypt_body_reported_failure:
  assumes "truthy_field key"
      and "invoke e script (decrypt_args f key) w = (Inr payload, w1)"
      and "payload \<noteq> JNull" and "\<not> truthy (get payload ''success'')"
  shows "decrypt_body e script no_file failed not_found name (Some f) key w
           = send (Json 500 (JObj
                     [(''error'', or_else (get payload ''error'') (JStr failed)),
                      (''hint'', JStr ''Make sure you are using the correct encryption key'')]))
                  (snd (unlinkSync (path f) w1))"
  using assms by (simp add: decrypt_body_def read_prop_def)

lemma unlinkSync_gone: "p \<notin> files (snd (unlinkSync p w))"
  by (simp add: unlinkSync_def emit_def)

lemma unlinkSync_events:
  "p \<in> files w \<Longrightarrow> events (snd (unlinkSync p w)) = events w @ [Unlink p]"
  by (simp add: unlinkSync_def emit_def)

lemma catch_send: "catch_500 (send r w) = (r, emit (Respond r) w)"
  by (simp add: catch_500_def send_def)

lemma files_emit [simp]: "files (emit ev w) = files w"
  by (simp add: emit_def)

lemma events_emit [simp]: "events (emit ev w) = events w @ [ev]"
  by (simp add: emit_def)

lemma db_emit [simp]: "db (emit ev w) = db w"
  by (simp add: emit_def)

lemma next_id_emit [simp]: "next_id (emit ev w) = next_id w"
  by (simp add: emit_def)

lemma decrypt_body_failure_effect:
  assumes "truthy_field key"
      and "invoke e script (decrypt_args f key) w = (Inr payload, w1)"
      and "payload \<noteq> JNull" and "\<not> truthy (get payload ''success'')"
  shows "fst (catch_500 (decrypt_body e script no_file failed not_found name (Some f) key w))
           = Json 500 (JObj
                     [(''error'', or_else (get payload ''error'') (JStr failed)),
                      (''hint'', JStr ''Make sure you are using the correct encryption key'')])"
    and "path f \<notin> files (snd (catch_500 (decrypt_body e script no_file failed not_found name
                                   (Some f) key w)))"
    and "path f \<in> files w \<Longrightarrow>
         events (snd (catch_500 (decrypt_body e script no_file failed not_found name
                                   (Some f) key w)))
           = events w1 @ [Unlink (path f),
                         Respond (Json 500 (JObj
                     [(''error'', or_else (get payload ''error'') (JStr failed)),
                      (''hint'', JStr ''Make sure you are using the correct encryption key'')]))]"
proof -
  note w1 = invoke_result_world [OF assms(2)]
  show "fst (catch_500 (decrypt_body e script no_file failed not_found name (Some f) key w))
           = Json 500 (JObj
                     [(''error'', or_else (get payload ''error'') (JStr failed)),
                      (''hint'', JStr ''Make sure you are using the correct encryption key'')])"
    by (simp add: decrypt_body_reported_failure [OF assms] catch_send)
  show "path f \<notin> files (snd (catch_500 (decrypt_body e script no_file failed not_found name
                                   (Some f) key w)))"
    by (simp add: decrypt_body_reported_failure [OF assms] catch_send unlinkSync_gone)
  assume "path f \<in> files w"
  then have "path f \<in> files w1" using w1 by auto
  then show "events (snd (catch_500 (decrypt_body e script no_file failed not_found name
                                   (Some f) key w)))
           = events w1 @ [Unlink (path f),
                         Respond (Json 500 (JObj
                     [(''error'', or_else (get payload ''error'') (JStr failed)),
                      (''hint'', JStr ''Make sure you are using the correct encryption key'')]))]"
    by (simp add: decrypt_body_reported_failure [OF assms] catch_send unlinkSync_events)
qed

subsection \<open>The encrypting routes\<close>

lemma catch_threw:
  "catch_500 (Threw message, w)
     = (Json 500 (error_body (JStr message)), emit (Respond (Json 500 (error_body (JStr message)))) w)"
  by (simp add: catch_500_def)

lemma encryption_metrics_db [simp]: "db (snd (encryption_metrics e ip ep t w)) = db w"
  by (simp add: encryption_metrics_world)

lemma encryption_metrics_next_id [simp]: "next_id (snd (encryption_metrics e ip ep t w)) = next_id w"
  by (simp add: encryption_metrics_world)

lemma stego_metrics_db [simp]: "db (snd (stego_metrics e cp sp t w)) = db w"
  by (simp add: stego_metrics_world)

lemma stego_metrics_next_id [simp]: "next_id (snd (stego_metrics e cp sp t w)) = next_id w"
  by (simp add: stego_metrics_world)

lemma encrypt_try_run:
  assumes "\<not> key_refused e key" and "encrypt_transformation e f key m w = (res, w1)"
  shows "encrypt_try e (Some f) key m w =
     (case res of
        Inl message \<Rightarrow> (Threw message, w1)
      | Inr encryptResult \<Rightarrow>
          if encryptResult = JNull
          then (Threw (''Cannot read properties of null (reading '' @ [CHR 0x27] @ ''success''
                         @ [CHR 0x27] @ '')''), w1)
          else if \<not> truthy (get encryptResult ''success'')
          then send (Json 500 (error_body (or_else (get encryptResult ''error'')
                                             (JStr ''Encryption failed'')))) w1
          else encrypt_complete e f (map_or_default m) encryptResult w1)"
  using assms
  by (auto simp add: encrypt_try_def encrypt_transformation_def read_prop_def split: sum.splits)

lemma encrypt_complete_accepted:
  assumes "encryption_metrics e (path f) (get payload ''encrypted_path'') (elapsed e) w1 = (cm, w2)"
      and "EncryptedImage e (encrypt_newImage e f mp (get payload ''encrypted_path'') cm) = Some d"
      and "store_error e = None"
  shows "encrypt_complete e f mp payload w1 =
           send (Json 200 (encrypt_ok_body (next_id w2) (encrypted_name e f) (elapsed e) cm))
             ((emit (Saved (next_id w2)) w2)
                \<lparr>db := db w2 @ [(next_id w2, d)], next_id := Suc (next_id w2)\<rparr>)"
  using assms by (simp add: encrypt_complete_def elapsed_def save_def)

lemma encrypt_complete_refused:
  assumes "encryption_metrics e (path f) (get payload ''encrypted_path'') (elapsed e) w1 = (cm, w2)"
      and "EncryptedImage e (encrypt_newImage e f mp (get payload ''encrypted_path'') cm) = None
           \<or> store_error e \<noteq> None"
  shows "\<exists>message. encrypt_complete e f mp payload w1 = (Threw message, w2)
           \<and> (message = validation_message e \<or> store_error e = Some message)"
  using assms by (auto simp add: encrypt_complete_def elapsed_def save_def split: option.splits)

lemma stego_try_run:
  assumes "\<not> key_refused e key" and "stego_transformation e s c key m w = (res, w1)"
  shows "encrypt_stego_try e (Some (Some s, Some c)) key m w =
     (case res of
        Inl message \<Rightarrow> (Threw message, w1)
      | Inr stegoResult \<Rightarrow>
          if stegoResult = JNull
          then (Threw (''Cannot read properties of null (reading '' @ [CHR 0x27] @ ''success''
                         @ [CHR 0x27] @ '')''), w1)
          else if \<not> truthy (get stegoResult ''success'')
          then send (Json 500 (error_body (or_else (get stegoResult ''error'')
                                             (JStr ''Steganography failed'')))) w1
          else stego_complete e s c (map_or_default m) stegoResult w1)"
  using assms
  by (auto simp add: encrypt_stego_try_def stego_transformation_def read_prop_def split: sum.splits)

lemma stego_complete_no_path:
  assumes "\<forall>sp. get payload ''stego_path'' \<noteq> Some (JStr sp)"
  shows "stego_complete e s c mp payload w1
           = (Threw (invalid_arg_message e (get payload ''stego_path'')), w1)"
proof (cases "get payload ''stego_path''")
  case None
  then show ?thesis by (simp add: stego_complete_def)
next
  case (Some v)
  with assms show ?thesis by (cases v) (simp_all add: stego_complete_def)
qed

lemma stego_complete_accepted:
  assumes "get payload ''stego_path'' = Some (JStr sp)"
      and "stego_metrics e (path c) sp (elapsed e) w1 = (cm, w2)"
      and "EncryptedImage e (stego_newImage s mp (path_basename e sp) sp cm) = Some d"
      and "store_error e = None"
  shows "stego_complete e s c mp payload w1 =
           send (Json 200 (stego_ok_body (next_id w2) (path_basename e sp) (elapsed e) cm))
             ((emit (Saved (next_id w2)) w2)
                \<lparr>db := db w2 @ [(next_id w2, d)], next_id := Suc (next_id w2)\<rparr>)"
  using assms by (simp add: stego_complete_def elapsed_def save_def Let_def)

lemma stego_complete_refused:
  assumes "get payload ''stego_path'' = Some (JStr sp)"
      and "stego_metrics e (path c) sp (elapsed e) w1 = (cm, w2)"
      and "EncryptedImage e (stego_newImage s mp (path_basename e sp) sp cm) = None
           \<or> store_error e \<noteq> None"
  shows "\<exists>message. stego_complete e s c mp payload w1 = (Threw message, w2)
           \<and> (message = validation_message e \<or> store_error e = Some message)"
  using assms by (auto simp add: stego_complete_def elapsed_def save_def Let_def split: option.splits)


subsection \<open>What the routes do to the store\<close>

lemma unlinkSync_db [simp]: "db (snd (unlinkSync p w)) = db w"
  by (simp add: unlinkSync_def)

lemma unlink_if_exists_db [simp]: "db (unlink_if_exists p w) = db w"
  by (simp add: unlink_if_exists_def)

lemma download_cleanup_db [simp]: "db (download_cleanup a b w) = db w"
  by (simp add: download_cleanup_def)

lemma catch_500_db [simp]: "db (snd (catch_500 ow)) = db (snd ow)"
  by (cases ow; cases "fst ow") (simp_all add: catch_500_def)

lemma send_db [simp]: "db (snd (send r w)) = db w"
  by (simp add: send_def)

lemma decrypt_body_db:
  "db (snd (decrypt_body e script no_file failed not_found name req_file key w)) = db w"
proof (cases "\<exists>f. req_file = Some f \<and> truthy_field key")
  case False
  then show ?thesis
    by (cases req_file) (auto simp add: decrypt_body_def)
next
  case True
  then obtain f where fk: "req_file = Some f" "truthy_field key" by auto
  obtain res w1 where tr: "invoke e script (decrypt_args f key) w = (res, w1)"
    by (cases "invoke e script (decrypt_args f key) w")
  have w1: "db w1 = db w"
    using tr [symmetric, THEN arg_cong, of snd] by simp
  show ?thesis
    using fk tr w1
    by (auto simp add: decrypt_body_def read_prop_def Let_def
          split: sum.splits option.splits json.splits)
qed

lemma post_decrypt_db: "db (snd (post_decrypt e req_file key w)) = db w"
  by (simp add: post_decrypt_def decrypt_try_def decrypt_body_db)

lemma post_decrypt_stego_db: "db (snd (post_decrypt_stego e req_file key w)) = db w"
  by (simp add: post_decrypt_stego_def decrypt_stego_try_def decrypt_body_db)

lemma get_download_db: "db (snd (get_download e i w)) = db w"
  by (auto simp add: get_download_def download_try_def catch_500_def send_def
        split: sum.splits option.splits)

lemma get_download_stego_db: "db (snd (get_download_stego e i w)) = db w"
  by (auto simp add: get_download_stego_def download_stego_try_def catch_500_def send_def
        split: sum.splits option.splits)

lemma delete_image_db: "set (db (snd (delete_image e i w))) \<subseteq> set (db w)"
  by (auto simp add: delete_image_def delete_image_try_def findByIdAndDelete_def catch_500_def
        send_def Let_def split: sum.splits option.splits prod.splits if_splits)

subsection \<open>The outcomes of an encrypting request\<close>

lemma run_result_world:
  "runPythonScript e s a w = (res, w1) \<Longrightarrow>
     db w1 = db w \<and> next_id w1 = next_id w
     \<and> events w1 = events w @ [Exec (python_command e s a) exec_opts]
     \<and> files w1 = files w \<union> set (written (child e s a))"
  using run_db [of e s a w] run_next_id [of e s a w] run_events [of e s a w] run_files [of e s a w]
  by simp

lemma encryption_metrics_result_world:
  "encryption_metrics e ip ep t w1 = (cm, w2) \<Longrightarrow>
     db w2 = db w1 \<and> next_id w2 = next_id w1
     \<and> events w2 = events w1 @ [Exec (python_command e (metricsScript e)
                                      [Some (JStr ''encryption''), Some (JStr ip), ep]) exec_opts]"
  using encryption_metrics_world [of e ip ep t w1]
        run_db [of e "metricsScript e" "[Some (JStr ''encryption''), Some (JStr ip), ep]" w1]
        run_next_id [of e "metricsScript e" "[Some (JStr ''encryption''), Some (JStr ip), ep]" w1]
        run_events [of e "metricsScript e" "[Some (JStr ''encryption''), Some (JStr ip), ep]" w1]
  by simp

lemma stego_metrics_result_world:
  "stego_metrics e cp sp t w1 = (cm, w2) \<Longrightarrow>
     db w2 = db w1 \<and> next_id w2 = next_id w1
     \<and> events w2 = events w1 @ [Exec (python_command e (metricsScript e)
                     [Some (JStr ''steganography''), Some (JStr cp), Some (JStr sp)]) exec_opts]"
  using stego_metrics_world [of e cp sp t w1]
        run_db [of e "metricsScript e" "[Some (JStr ''steganography''), Some (JStr cp), Some (JStr sp)]" w1]
        run_next_id [of e "metricsScript e" "[Some (JStr ''steganography''), Some (JStr cp), Some (JStr sp)]" w1]
        run_events [of e "metricsScript e" "[Some (JStr ''steganography''), Some (JStr cp), Some (JStr sp)]" w1]
  by simp

lemma post_encrypt_cases [case_names rejected saved refused]:
  obtains
    (rejected)
      "db (snd (post_encrypt e req_file key m w)) = db w"
      "\<forall>body. fst (post_encrypt e req_file key m w) \<noteq> Json 200 body"
      "\<not> (\<exists>f. req_file = Some f \<and> \<not> key_refused e key
                 \<and> reports_success (fst (encrypt_transformation e f key m w)))"
  | (saved) f payload w1 cm w2 d where
      "req_file = Some f" "truthy_field key" "\<not> key_refused e key"
      "encrypt_transformation e f key m w = (Inr payload, w1)"
      "payload \<noteq> JNull" "truthy (get payload ''success'')"
      "encryption_metrics e (path f) (get payload ''encrypted_path'') (elapsed e) w1 = (cm, w2)"
      "EncryptedImage e (encrypt_newImage e f (map_or_default m)
                           (get payload ''encrypted_path'') cm) = Some d"
      "store_error e = None"
      "post_encrypt e req_file key m w
         = (Json 200 (encrypt_ok_body (next_id w) (encrypted_name e f) (elapsed e) cm),
            emit (Respond (Json 200 (encrypt_ok_body (next_id w) (encrypted_name e f)
                                       (elapsed e) cm)))
              ((emit (Saved (next_id w)) w2)
                 \<lparr>db := db w @ [(next_id w, d)], next_id := Suc (next_id w)\<rparr>))"
  | (refused) f payload w1 cm w2 message where
      "req_file = Some f" "truthy_field key" "\<not> key_refused e key"
      "encrypt_transformation e f key m w = (Inr payload, w1)"
      "payload \<noteq> JNull" "truthy (get payload ''success'')"
      "encryption_metrics e (path f) (get payload ''encrypted_path'') (elapsed e) w1 = (cm, w2)"
      "EncryptedImage e (encrypt_newImage e f (map_or_default m)
                           (get payload ''encrypted_path'') cm) = None
       \<or> store_error e \<noteq> None"
      "post_encrypt e req_file key m w
         = (Json 500 (error_body (JStr message)),
            emit (Respond (Json 500 (error_body (JStr message)))) w2)"
      "message = validation_message e \<or> store_error e = Some message"
proof (cases "\<exists>f. req_file = Some f \<and> \<not> key_refused e key")
  case False
  have "\<exists>message. encrypt_try e req_file key m w = send (Json 400 (error_body (JStr message))) w"
  proof (cases req_file)
    case None
    then show ?thesis by (auto simp add: encrypt_try_no_file)
  next
    case (Some f)
    with False have "key_refused e key"
      by auto
    with Some show ?thesis by (auto simp add: encrypt_try_short_key)
  qed
  then obtain message where pe:
    "post_encrypt e req_file key m w
       = (Json 400 (error_body (JStr message)), emit (Respond (Json 400 (error_body (JStr message)))) w)"
    by (auto simp add: post_encrypt_def sent_400)
  show thesis
    by (rule rejected) (use pe False in auto)
next
  case True
  then obtain f where fk: "req_file = Some f" "truthy_field key" "\<not> key_refused e key"
    by (auto simp add: key_refused_def)
  obtain res w1 where tr: "encrypt_transformation e f key m w = (res, w1)"
    by (cases "encrypt_transformation e f key m w")
  have w1: "db w1 = db w" "next_id w1 = next_id w"
    using tr [symmetric, THEN arg_cong, of snd] by (simp_all add: encrypt_transformation_def)
  note run = encrypt_try_run [OF fk(3) tr]
  show thesis
  proof (cases "reports_success res")
    case False
    then have "\<exists>r. encrypt_try e (Some f) key m w = (Threw r, w1)
                 \<or> (\<exists>v. encrypt_try e (Some f) key m w = send (Json 500 (error_body v)) w1)"
      by (cases res) (auto simp add: run reports_success_def)
    then have a: "db (snd (post_encrypt e req_file key m w)) = db w"
        "\<forall>body. fst (post_encrypt e req_file key m w) \<noteq> Json 200 body"
      by (auto simp add: post_encrypt_def fk catch_threw catch_send w1)
    show thesis
      by (rule rejected) (use a False fk tr in auto)
  next
    case True
    then obtain payload where p: "res = Inr payload" "payload \<noteq> JNull" "truthy (get payload ''success'')"
      by (cases res) (auto simp add: reports_success_def)
    obtain cm w2 where
      me: "encryption_metrics e (path f) (get payload ''encrypted_path'') (elapsed e) w1 = (cm, w2)"
      by (cases "encryption_metrics e (path f) (get payload ''encrypted_path'') (elapsed e) w1")
    have w2: "db w2 = db w" "next_id w2 = next_id w"
      using me [symmetric, THEN arg_cong, of snd] w1 by simp_all
    have pe: "post_encrypt e req_file key m w
                = catch_500 (encrypt_complete e f (map_or_default m) payload w1)"
      by (simp add: post_encrypt_def fk run p)
    let ?fields = "encrypt_newImage e f (map_or_default m) (get payload ''encrypted_path'') cm"
    show thesis
    proof (cases "EncryptedImage e ?fields = None \<or> store_error e \<noteq> None")
      case True
      from encrypt_complete_refused [OF me True]
      obtain message where c:
        "encrypt_complete e f (map_or_default m) payload w1 = (Threw message, w2)"
        "message = validation_message e \<or> store_error e = Some message"
        by blast
      show thesis
        by (rule refused [of f payload w1 cm w2 message])
           (use True pe fk tr p me c in \<open>simp_all add: catch_threw\<close>)
    next
      case False
      then obtain d where d: "EncryptedImage e ?fields = Some d" "store_error e = None"
        by auto
      show thesis
        by (rule saved [of f payload w1 cm w2 d])
           (use encrypt_complete_accepted [OF me d] pe fk tr p me d w2
            in \<open>simp_all add: catch_send\<close>)
    qed
  qed
qed

lemma post_encrypt_stego_cases [case_names rejected no_path saved refused]:
  obtains
    (rejected)
      "db (snd (post_encrypt_stego e req_files key m w)) = db w"
      "\<forall>body. fst (post_encrypt_stego e req_files key m w) \<noteq> Json 200 body"
      "\<not> (\<exists>s c. req_files = Some (Some s, Some c) \<and> \<not> key_refused e key
                 \<and> reports_success (fst (stego_transformation e s c key m w)))"
  | (no_path) s c payload w1 where
      "req_files = Some (Some s, Some c)" "truthy_field key" "\<not> key_refused e key"
      "stego_transformation e s c key m w = (Inr payload, w1)"
      "payload \<noteq> JNull" "truthy (get payload ''success'')"
      "\<forall>sp. get payload ''stego_path'' \<noteq> Some (JStr sp)"
      "post_encrypt_stego e req_files key m w
         = (Json 500 (error_body (JStr (invalid_arg_message e (get payload ''stego_path'')))),
            emit (Respond (Json 500 (error_body
                    (JStr (invalid_arg_message e (get payload ''stego_path'')))))) w1)"
  | (saved) s c payload w1 sp cm w2 d where
      "req_files = Some (Some s, Some c)" "truthy_field key" "\<not> key_refused e key"
      "stego_transformation e s c key m w = (Inr payload, w1)"
      "payload \<noteq> JNull" "truthy (get payload ''success'')"
      "get payload ''stego_path'' = Some (JStr sp)"
      "stego_metrics e (path c) sp (elapsed e) w1 = (cm, w2)"
      "EncryptedImage e (stego_newImage s (map_or_default m) (path_basename e sp) sp cm) = Some d"
      "store_error e = None"
      "post_encrypt_stego e req_files key m w
         = (Json 200 (stego_ok_body (next_id w) (path_basename e sp) (elapsed e) cm),
            emit (Respond (Json 200 (stego_ok_body (next_id w) (path_basename e sp) (elapsed e) cm)))
              ((emit (Saved (next_id w)) w2)
                 \<lparr>db := db w @ [(next_id w, d)], next_id := Suc (next_id w)\<rparr>))"
  | (refused) s c payload w1 sp cm w2 message where
      "req_files = Some (Some s, Some c)" "truthy_field key" "\<not> key_refused e key"
      "stego_transformation e s c key m w = (Inr payload, w1)"
      "payload \<noteq> JNull" "truthy (get payload ''success'')"
      "get payload ''stego_path'' = Some (JStr sp)"
      "stego_metrics e (path c) sp (elapsed e) w1 = (cm, w2)"
      "EncryptedImage e (stego_newImage s (map_or_default m) (path_basename e sp) sp cm) = None
       \<or> store_error e \<noteq> None"
      "post_encrypt_stego e req_files key m w
         = (Json 500 (error_body (JStr message)),
            emit (Respond (Json 500 (error_body (JStr message)))) w2)"
      "message = validation_message e \<or> store_error e = Some message"
proof (cases "\<exists>s c. req_files = Some (Some s, Some c) \<and> \<not> key_refused e key")
  case False
  have "\<exists>message. encrypt_stego_try e req_files key m w
          = send (Json 400 (error_body (JStr message))) w"
  proof (cases "\<forall>secret cover. req_files \<noteq> Some (Some secret, Some cover)")
    case True
    then show ?thesis by (auto simp add: stego_try_missing)
  next
    case no: False
    then obtain s c where sc: "req_files = Some (Some s, Some c)" by auto
    with False have "key_refused e key"
      by auto
    with sc show ?thesis by (auto simp add: stego_try_short_key)
  qed
  then obtain message where pe:
    "post_encrypt_stego e req_files key m w
       = (Json 400 (error_body (JStr message)), emit (Respond (Json 400 (error_body (JStr message)))) w)"
    by (auto simp add: post_encrypt_stego_def sent_400)
  show thesis
    by (rule rejected) (use pe False in auto)
next
  case True
  then obtain s c where fk: "req_files = Some (Some s, Some c)" "truthy_field key" "\<not> key_refused e key"
    by (auto simp add: key_refused_def)
  obtain res w1 where tr: "stego_transformation e s c key m w = (res, w1)"
    by (cases "stego_transformation e s c key m w")
  have w1: "db w1 = db w" "next_id w1 = next_id w"
    using tr [symmetric, THEN arg_cong, of snd] by (simp_all add: stego_transformation_def)
  note run = stego_try_run [OF fk(3) tr]
  show thesis
  proof (cases "reports_success res")
    case False
    then have "\<exists>r. encrypt_stego_try e (Some (Some s, Some c)) key m w = (Threw r, w1)
                 \<or> (\<exists>v. encrypt_stego_try e (Some (Some s, Some c)) key m w
                           = send (Json 500 (error_body v)) w1)"
      by (cases res) (auto simp add: run reports_success_def)
    then have a: "db (snd (post_encrypt_stego e req_files key m w)) = db w"
       "\<forall>body. fst (post_encrypt_stego e req_files key m w) \<noteq> Json 200 body"
      by (auto simp add: post_encrypt_stego_def fk catch_threw catch_send w1)
    show thesis
      by (rule rejected) (use a False fk tr in auto)
  next
    case True
    then obtain payload where p: "res = Inr payload" "payload \<noteq> JNull" "truthy (get payload ''success'')"
      by (cases res) (auto simp add: reports_success_def)
    have pe: "post_encrypt_stego e req_files key m w
                = catch_500 (stego_complete e s c (map_or_default m) payload w1)"
      by (simp add: post_encrypt_stego_def fk run p)
    show thesis
    proof (cases "\<forall>sp. get payload ''stego_path'' \<noteq> Some (JStr sp)")
      case True
      show thesis
        by (rule no_path [of s c payload w1])
           (use stego_complete_no_path [OF True] pe fk tr p True in \<open>simp_all add: catch_threw\<close>)
    next
      case False
      then obtain sp where sp: "get payload ''stego_path'' = Some (JStr sp)" by auto
      obtain cm w2 where me: "stego_metrics e (path c) sp (elapsed e) w1 = (cm, w2)"
        by (cases "stego_metrics e (path c) sp (elapsed e) w1")
      have w2: "db w2 = db w" "next_id w2 = next_id w"
        using me [symmetric, THEN arg_cong, of snd] w1 by simp_all
      let ?fields = "stego_newImage s (map_or_default m) (path_basename e sp) sp cm"
      show thesis
      proof (cases "EncryptedImage e ?fields = None \<or> store_error e \<noteq> None")
        case True
        from stego_complete_refused [OF sp me True]
        obtain message where c:
          "stego_complete e s c (map_or_default m) payload w1 = (Threw message, w2)"
          "message = validation_message e \<or> store_error e = Some message"
          by blast
        show thesis
          by (rule refused [of s c payload w1 sp cm w2 message])
             (use True pe fk tr p me sp c in \<open>simp_all add: catch_threw\<close>)
      next
        case no: False
        then obtain d where d: "EncryptedImage e ?fields = Some d" "store_error e = None"
          by auto
        show thesis
          by (rule saved [of s c payload w1 sp cm w2 d])
             (use stego_complete_accepted [OF sp me d] pe fk tr p me d w2 sp
              in \<open>simp_all add: catch_send\<close>)
      qed
    qed
  qed
qed

lemma post_encrypt_record:
  "(db (snd (post_encrypt e req_file key m w)) = db w
      \<or> (\<exists>d. db (snd (post_encrypt e req_file key m w)) = db w @ [(next_id w, d)]))
   \<and> (db (snd (post_encrypt e req_file key m w)) \<noteq> db w \<longrightarrow>
        (\<exists>f c. req_file = Some f \<and> \<not> key_refused e key
            \<and> reports_success (fst (encrypt_transformation e f key m w))
            \<and> events (snd (post_encrypt e req_file key m w))
                = events (snd (encrypt_transformation e f key m w))
                    @ [Exec c exec_opts, Saved (next_id w),
                       Respond (fst (post_encrypt e req_file key m w))]))
   \<and> (\<forall>f. req_file = Some f \<and> \<not> key_refused e key
          \<and> reports_success (fst (encrypt_transformation e f key m w)) \<longrightarrow>
        (\<exists>d body. db (snd (post_encrypt e req_file key m w)) = db w @ [(next_id w, d)]
             \<and> fst (post_encrypt e req_file key m w) = Json 200 body)
        \<or> (db (snd (post_encrypt e req_file key m w)) = db w
            \<and> (\<exists>message. fst (post_encrypt e req_file key m w)
                             = Json 500 (error_body (JStr message))
                  \<and> (message = validation_message e \<or> store_error e = Some message))))
   \<and> (store_error e \<noteq> None \<longrightarrow> db (snd (post_encrypt e req_file key m w)) = db w)"
proof (cases rule: post_encrypt_cases [of e req_file key m w])
  case rejected
  then show ?thesis by auto
next
  case (saved f payload w1 cm w2 d)
  note m = encryption_metrics_result_world [OF saved(7)]
  from saved m show ?thesis
    by (simp add: reports_success_def)
next
  case (refused f payload w1 cm w2 message)
  note m = encryption_metrics_result_world [OF refused(7)]
  note t = invoke_result_world [OF refused(4) [unfolded encrypt_transformation_def]]
  have "db (snd (post_encrypt e req_file key m w)) = db w"
    using refused(9) m t by simp
  then show ?thesis
    using refused by (auto simp add: reports_success_def)
qed

lemma post_encrypt_stego_record:
  "(db (snd (post_encrypt_stego e req_files key m w)) = db w
      \<or> (\<exists>d. db (snd (post_encrypt_stego e req_files key m w)) = db w @ [(next_id w, d)]))
   \<and> (db (snd (post_encrypt_stego e req_files key m w)) \<noteq> db w \<longrightarrow>
        (\<exists>s c x. req_files = Some (Some s, Some c) \<and> \<not> key_refused e key
            \<and> reports_success (fst (stego_transformation e s c key m w))
            \<and> events (snd (post_encrypt_stego e req_files key m w))
                = events (snd (stego_transformation e s c key m w))
                    @ [Exec x exec_opts, Saved (next_id w),
                       Respond (fst (post_encrypt_stego e req_files key m w))]))
   \<and> (\<forall>s c. req_files = Some (Some s, Some c) \<and> \<not> key_refused e key
          \<and> reports_success (fst (stego_transformation e s c key m w)) \<longrightarrow>
        (\<exists>d body. db (snd (post_encrypt_stego e req_files key m w)) = db w @ [(next_id w, d)]
             \<and> fst (post_encrypt_stego e req_files key m w) = Json 200 body)
        \<or> (db (snd (post_encrypt_stego e req_files key m w)) = db w
            \<and> (\<exists>message. fst (post_encrypt_stego e req_files key m w)
                             = Json 500 (error_body (JStr message)))))
   \<and> (store_error e \<noteq> None \<longrightarrow> db (snd (post_encrypt_stego e req_files key m w)) = db w)"
proof (cases rule: post_encrypt_stego_cases [of e req_files key m w])
  case rejected
  then show ?thesis by auto
next
  case (no_path s c payload w1)
  note t = invoke_result_world [OF no_path(4) [unfolded stego_transformation_def]]
  have "db (snd (post_encrypt_stego e req_files key m w)) = db w"
    using no_path(8) t by simp
  then show ?thesis
    using no_path(1-6,8) by (auto simp add: reports_success_def)
next
  case (saved s c payload w1 sp cm w2 d)
  note m = stego_metrics_result_world [OF saved(8)]
  from saved m show ?thesis
    by (simp add: reports_success_def)
next
  case (refused s c payload w1 sp cm w2 message)
  note m = stego_metrics_result_world [OF refused(8)]
  note t = invoke_result_world [OF refused(4) [unfolded stego_transformation_def]]
  have "db (snd (post_encrypt_stego e req_files key m w)) = db w"
    using refused(10) m t by simp
  then show ?thesis
    using refused(1-6,9,10) by (auto simp add: reports_success_def)
qed

subsection \<open>Runs in the concrete surroundings\<close>

lemma happy_encrypt:
  "post_encrypt happy_env (Some cat_upload) (Some (FText ''abcdefgh'')) (Some (FText ''tent'')) staged =
    (Json 200 (encrypt_ok_body 0 ''cat_encrypted_1700000000101.bin'' 250
        [(''encryptionTime'', JNum 250),
         (''entropy'', JObj [(''original'', JNum 0), (''encrypted'', JNum 0)]),
         (''NPCR'', JNum (996 / 10)),
         (''UACI'', JNum (334 / 10)),
         (''correlation'', JNum 0),
         (''PSNR'', JNum 0),
         (''MSE'', JNum 0)]),
     \<lparr>files = {''/tmp/uploads/original/1700000000000-42-cat.png'', ''/tmp/uploads/encrypted/cat.bin''},
      db = [(0, cat_doc)], next_id = 1,
      events = [Exec encrypt_command exec_opts, Exec measure_command exec_opts, Saved 0,
        Respond (Json 200 (encrypt_ok_body 0 ''cat_encrypted_1700000000101.bin'' 250
        [(''encryptionTime'', JNum 250),
         (''entropy'', JObj [(''original'', JNum 0), (''encrypted'', JNum 0)]),
         (''NPCR'', JNum (996 / 10)),
         (''UACI'', JNum (334 / 10)),
         (''correlation'', JNum 0),
         (''PSNR'', JNum 0),
         (''MSE'', JNum 0)]))]\<rparr>)"
  by (simp add: route_defs invoker_defs scenario_defs dec_eval insert_commute)

lemma happy_hide:
  "post_encrypt_stego blind_env (Some (Some cat_upload, Some cover_upload)) (Some (FText ''abcdefgh'')) None staged =
    (Json 200 (stego_ok_body 0 ''cat_stego.png'' 250 (default_metrics 250)),
     \<lparr>files = {''/tmp/uploads/original/1700000000000-42-cat.png'', ''/tmp/uploads/stego/cat_stego.png''},
      db = [(0, stego_doc)], next_id = 1,
      events = [Exec hide_command exec_opts, Exec compare_command exec_opts, Saved 0,
        Respond (Json 200 (stego_ok_body 0 ''cat_stego.png'' 250 (default_metrics 250)))]\<rparr>)"
  by (simp add: route_defs invoker_defs scenario_defs dec_eval insert_commute)

lemma happy_decrypt:
  "post_decrypt happy_env (Some cat_upload) (Some (FText ''abcdefgh'')) staged =
    (Download ''/tmp/uploads/decrypted/cat.png'' ''decrypted_image.png'',
     \<lparr>files = {}, db = [], next_id = 0,
      events = [Exec decrypt_command exec_opts,
                Respond (Download ''/tmp/uploads/decrypted/cat.png'' ''decrypted_image.png''),
                Unlink ''/tmp/uploads/original/1700000000000-42-cat.png'',
                Unlink ''/tmp/uploads/decrypted/cat.png'']\<rparr>)"
  by (simp add: route_defs invoker_defs scenario_defs)

lemma offline_encrypt:
  "post_encrypt offline_env (Some cat_upload) (Some (FText ''abcdefgh'')) (Some (FText ''tent'')) staged =
    (Json 500 (error_body (JStr ''connect ECONNREFUSED 127.0.0.1:27017'')),
     \<lparr>files = {''/tmp/uploads/original/1700000000000-42-cat.png'', ''/tmp/uploads/encrypted/cat.bin''},
      db = [], next_id = 0,
      events = [Exec encrypt_command exec_opts, Exec measure_command exec_opts,
        Respond (Json 500 (error_body (JStr ''connect ECONNREFUSED 127.0.0.1:27017'')))]\<rparr>)"
  by (simp add: route_defs invoker_defs scenario_defs dec_eval insert_commute)

lemma happy_transformation_value:
  "fst (encrypt_transformation happy_env cat_upload (Some (FText ''abcdefgh'')) (Some (FText ''tent'')) staged)
     = Inr (JObj [(''success'', JBool True),
                 (''encrypted_path'', JStr ''/tmp/uploads/encrypted/cat.bin'')])"
  by (simp add: encrypt_transformation_def route_defs invoker_defs scenario_defs)

lemma happy_transformation:
  "reports_success (fst (encrypt_transformation happy_env cat_upload (Some (FText ''abcdefgh'')) (Some (FText ''tent'')) staged))"
  by (simp add: happy_transformation_value reports_success_def)

lemma offline_transformation_value:
  "fst (encrypt_transformation offline_env cat_upload (Some (FText ''abcdefgh'')) (Some (FText ''tent'')) staged)
     = Inr (JObj [(''success'', JBool True),
                 (''encrypted_path'', JStr ''/tmp/uploads/encrypted/cat.bin'')])"
  by (simp add: encrypt_transformation_def route_defs invoker_defs scenario_defs)

lemma offline_transformation:
  "reports_success (fst (encrypt_transformation offline_env cat_upload (Some (FText ''abcdefgh'')) (Some (FText ''tent'')) staged))"
  by (simp add: offline_transformation_value reports_success_def)

lemma blind_hiding_value:
  "fst (stego_transformation blind_env cat_upload cover_upload (Some (FText ''abcdefgh'')) None staged)
     = Inr (JObj [(''success'', JBool True),
                 (''stego_path'', JStr ''/tmp/uploads/stego/cat_stego.png'')])"
  by (simp add: stego_transformation_def route_defs invoker_defs scenario_defs)

lemma blind_hiding:
  "reports_success (fst (stego_transformation blind_env cat_upload cover_upload (Some (FText ''abcdefgh'')) None staged))"
  by (simp add: blind_hiding_value reports_success_def)

lemma happy_decryption_value:
  "fst (decrypt_transformation happy_env cat_upload (Some (FText ''abcdefgh'')) staged)
     = Inr (JObj [(''success'', JBool True),
                 (''decrypted_path'', JStr ''/tmp/uploads/decrypted/cat.png'')])"
  by (simp add: decrypt_transformation_def route_defs invoker_defs scenario_defs)

lemma happy_decryption:
  "reports_success (fst (decrypt_transformation happy_env cat_upload (Some (FText ''abcdefgh'')) staged))"
  by (simp add: happy_decryption_value reports_success_def)

subsection \<open>When the metrics script fails\<close>

lemma encryption_metrics_blind:
  "\<not> reports_success (fst (encrypt_measurement e f payload w1)) \<Longrightarrow>
   encryption_metrics e (path f) (get payload ''encrypted_path'') t w1
     = (default_metrics t, snd (encrypt_measurement e f payload w1))"
  by (simp add: prod_eq_iff encryption_metrics_failed encryption_metrics_world
        encrypt_measurement_def)

lemma stego_metrics_blind:
  "\<not> reports_success (fst (stego_measurement e c sp w1)) \<Longrightarrow>
   stego_metrics e (path c) sp t w1 = (default_metrics t, snd (stego_measurement e c sp w1))"
  by (simp add: prod_eq_iff stego_metrics_failed stego_metrics_world stego_measurement_def)

lemma default_document:
  assumes "EncryptedImage e obj = Some d" and "f_status obj = ''completed''"
      and "f_metrics obj = default_metrics t"
  shows "status d = ''completed''"
    and "metrics d = \<lparr>encryptionTime = Some (of_int t), entropy_original = Some 0,
                      entropy_encrypted = Some 0, npcr = Some 0, uaci = Some 0\<rparr>"
  using EncryptedImage_fields [OF assms(1)] assms(2,3) by (simp_all add: schema_metrics_default)

lemma post_encrypt_blind:
  assumes "\<not> key_refused e key" and "encrypt_transformation e f key m w = (Inr payload, w1)"
      and "payload \<noteq> JNull" and "truthy (get payload ''success'')"
      and "\<not> reports_success (fst (encrypt_measurement e f payload w1))"
  shows "(\<forall>d. EncryptedImage e (encrypt_newImage e f (map_or_default m)
                  (get payload ''encrypted_path'') (default_metrics (elapsed e))) = Some d
              \<and> store_error e = None \<longrightarrow>
            fst (post_encrypt e (Some f) key m w)
              = Json 200 (encrypt_ok_body (next_id w) (encrypted_name e f) (elapsed e)
                            (default_metrics (elapsed e)))
          \<and> db (snd (post_encrypt e (Some f) key m w)) = db w @ [(next_id w, d)]
          \<and> status d = ''completed''
          \<and> metrics d = \<lparr>encryptionTime = Some (of_int (elapsed e)), entropy_original = Some 0,
                          entropy_encrypted = Some 0, npcr = Some 0, uaci = Some 0\<rparr>)
       \<and> (EncryptedImage e (encrypt_newImage e f (map_or_default m)
                  (get payload ''encrypted_path'') (default_metrics (elapsed e))) = None
            \<or> store_error e \<noteq> None \<longrightarrow>
            db (snd (post_encrypt e (Some f) key m w)) = db w
          \<and> (\<exists>message. fst (post_encrypt e (Some f) key m w)
                           = Json 500 (error_body (JStr message))
                \<and> (message = validation_message e \<or> store_error e = Some message)))"
proof -
  let ?w2 = "snd (encrypt_measurement e f payload w1)"
  let ?fields = "encrypt_newImage e f (map_or_default m) (get payload ''encrypted_path'')
                   (default_metrics (elapsed e))"
  note me = encryption_metrics_blind [OF assms(5), of "elapsed e"]
  have w1: "db w1 = db w" "next_id w1 = next_id w"
    using invoke_result_world [OF assms(2) [unfolded encrypt_transformation_def]] by simp_all
  have w2: "db ?w2 = db w" "next_id ?w2 = next_id w"
    using w1 by (simp_all add: encrypt_measurement_def)
  have pe: "post_encrypt e (Some f) key m w
              = catch_500 (encrypt_complete e f (map_or_default m) payload w1)"
    using assms(3,4) by (simp add: post_encrypt_def encrypt_try_run [OF assms(1,2)])
  show ?thesis
  proof (intro conjI allI impI)
    fix d
    assume a: "EncryptedImage e ?fields = Some d \<and> store_error e = None"
    then have d: "EncryptedImage e ?fields = Some d" "store_error e = None" by simp_all
    note acc = encrypt_complete_accepted [OF me d]
    show "fst (post_encrypt e (Some f) key m w)
            = Json 200 (encrypt_ok_body (next_id w) (encrypted_name e f) (elapsed e)
                          (default_metrics (elapsed e)))"
      by (simp add: pe acc catch_send w2)
    show "db (snd (post_encrypt e (Some f) key m w)) = db w @ [(next_id w, d)]"
      by (simp add: pe acc catch_send w2)
    show "status d = ''completed''"
      by (rule default_document(1) [OF d(1)]) (simp_all add: encrypt_newImage_def)
    show "metrics d = \<lparr>encryptionTime = Some (of_int (elapsed e)), entropy_original = Some 0,
                        entropy_encrypted = Some 0, npcr = Some 0, uaci = Some 0\<rparr>"
      by (rule default_document(2) [OF d(1)]) (simp_all add: encrypt_newImage_def)
  next
    assume r: "EncryptedImage e ?fields = None \<or> store_error e \<noteq> None"
    from encrypt_complete_refused [OF me r]
    obtain message where c:
      "encrypt_complete e f (map_or_default m) payload w1 = (Threw message, ?w2)"
      "message = validation_message e \<or> store_error e = Some message"
      by blast
    show "db (snd (post_encrypt e (Some f) key m w)) = db w"
      by (simp add: pe c catch_threw w2)
    show "\<exists>message. fst (post_encrypt e (Some f) key m w)
                           = Json 500 (error_body (JStr message))
                \<and> (message = validation_message e \<or> store_error e = Some message)"
      using c(2) by (auto simp add: pe c(1) catch_threw)
  qed
qed

lemma post_encrypt_stego_blind:
  assumes "\<not> key_refused e key" and "stego_transformation e s c key m w = (Inr payload, w1)"
      and "payload \<noteq> JNull" and "truthy (get payload ''success'')"
      and "get payload ''stego_path'' = Some (JStr sp)"
      and "\<not> reports_success (fst (stego_measurement e c sp w1))"
  shows "(\<forall>d. EncryptedImage e (stego_newImage s (map_or_default m) (path_basename e sp) sp
                                   (default_metrics (elapsed e))) = Some d
              \<and> store_error e = None \<longrightarrow>
            fst (post_encrypt_stego e (Some (Some s, Some c)) key m w)
              = Json 200 (stego_ok_body (next_id w) (path_basename e sp) (elapsed e)
                            (default_metrics (elapsed e)))
          \<and> db (snd (post_encrypt_stego e (Some (Some s, Some c)) key m w))
              = db w @ [(next_id w, d)]
          \<and> status d = ''completed''
          \<and> metrics d = \<lparr>encryptionTime = Some (of_int (elapsed e)), entropy_original = Some 0,
                          entropy_encrypted = Some 0, npcr = Some 0, uaci = Some 0\<rparr>)
       \<and> (EncryptedImage e (stego_newImage s (map_or_default m) (path_basename e sp) sp
                               (default_metrics (elapsed e))) = None
            \<or> store_error e \<noteq> None \<longrightarrow>
            db (snd (post_encrypt_stego e (Some (Some s, Some c)) key m w)) = db w
          \<and> (\<exists>message. fst (post_encrypt_stego e (Some (Some s, Some c)) key m w)
                           = Json 500 (error_body (JStr message))
                \<and> (message = validation_message e \<or> store_error e = Some message)))"
proof -
  let ?w2 = "snd (stego_measurement e c sp w1)"
  let ?obj = "stego_newImage s (map_or_default m) (path_basename e sp) sp
                (default_metrics (elapsed e))"
  note me = stego_metrics_blind [OF assms(6), of "elapsed e"]
  have w1: "db w1 = db w" "next_id w1 = next_id w"
    using invoke_result_world [OF assms(2) [unfolded stego_transformation_def]] by simp_all
  have w2: "db ?w2 = db w" "next_id ?w2 = next_id w"
    using w1 by (simp_all add: stego_measurement_def)
  have pe: "post_encrypt_stego e (Some (Some s, Some c)) key m w
              = catch_500 (stego_complete e s c (map_or_default m) payload w1)"
    using assms(3,4) by (simp add: post_encrypt_stego_def stego_try_run [OF assms(1,2)])
  show ?thesis
  proof (intro conjI allI impI)
    fix d
    assume a: "EncryptedImage e ?obj = Some d \<and> store_error e = None"
    then have d: "EncryptedImage e ?obj = Some d" "store_error e = None" by simp_all
    note acc = stego_complete_accepted [OF assms(5) me d]
    show "fst (post_encrypt_stego e (Some (Some s, Some c)) key m w)
            = Json 200 (stego_ok_body (next_id w) (path_basename e sp) (elapsed e)
                          (default_metrics (elapsed e)))"
      by (simp add: pe acc catch_send w2)
    show "db (snd (post_encrypt_stego e (Some (Some s, Some c)) key m w))
            = db w @ [(next_id w, d)]"
      by (simp add: pe acc catch_send w2)
    show "status d = ''completed''"
      by (rule default_document(1) [OF d(1)]) (simp_all add: stego_newImage_def)
    show "metrics d = \<lparr>encryptionTime = Some (of_int (elapsed e)), entropy_original = Some 0,
                        entropy_encrypted = Some 0, npcr = Some 0, uaci = Some 0\<rparr>"
      by (rule default_document(2) [OF d(1)]) (simp_all add: stego_newImage_def)
  next
    assume r: "EncryptedImage e ?obj = None \<or> store_error e \<noteq> None"
    from stego_complete_refused [OF assms(5) me r]
    obtain message where c:
      "stego_complete e s c (map_or_default m) payload w1 = (Threw message, ?w2)"
      "message = validation_message e \<or> store_error e = Some message"
      by blast
    show "db (snd (post_encrypt_stego e (Some (Some s, Some c)) key m w)) = db w"
      by (simp add: pe c catch_threw w2)
    show "\<exists>message. fst (post_encrypt_stego e (Some (Some s, Some c)) key m w)
                           = Json 500 (error_body (JStr message))
                \<and> (message = validation_message e \<or> store_error e = Some message)"
      using c(2) by (auto simp add: pe c(1) catch_threw)
  qed
qed

subsection \<open>Runs with a metrics script that is killed\<close>

lemma blind_transformation_value:
  "fst (encrypt_transformation blind_env cat_upload (Some (FText ''abcdefgh'')) (Some (FText ''tent'')) staged)
     = Inr (JObj [(''success'', JBool True),
                 (''encrypted_path'', JStr ''/tmp/uploads/encrypted/cat.bin'')])"
  by (simp add: encrypt_transformation_def route_defs invoker_defs scenario_defs)

lemma blind_measurement_value:
  "fst (encrypt_measurement blind_env cat_upload
          (JObj [(''success'', JBool True),
                 (''encrypted_path'', JStr ''/tmp/uploads/encrypted/cat.bin'')]) w1)
     = Inl (''Command failed: '' @ measure_command @ [CHR 0x0A])"
  by (simp add: encrypt_measurement_def route_defs invoker_defs scenario_defs)

lemma blind_comparison_value:
  "fst (stego_measurement blind_env cover_upload ''/tmp/uploads/stego/cat_stego.png'' w1)
     = Inl (''Command failed: '' @ compare_command @ [CHR 0x0A])"
  by (simp add: stego_measurement_def route_defs invoker_defs scenario_defs)

lemma blind_document:
  "EncryptedImage blind_env
     (encrypt_newImage blind_env cat_upload (map_or_default (Some (FText ''tent'')))
        (get (JObj [(''success'', JBool True),
                    (''encrypted_path'', JStr ''/tmp/uploads/encrypted/cat.bin'')])
             ''encrypted_path'')
        (default_metrics (elapsed blind_env)))
     = Some cat_doc"
  by (simp add: route_defs invoker_defs scenario_defs elapsed_def dec_eval)

lemma blind_stego_document:
  "EncryptedImage blind_env
     (stego_newImage cat_upload (map_or_default None)
        (path_basename blind_env ''/tmp/uploads/stego/cat_stego.png'')
        ''/tmp/uploads/stego/cat_stego.png'' (default_metrics (elapsed blind_env)))
     = Some stego_doc"
  by (simp add: route_defs invoker_defs scenario_defs elapsed_def)

lemma blind_readings:
  "elapsed blind_env = 250"
  "encrypted_name blind_env cat_upload = ''cat_encrypted_1700000000101.bin''"
  "path_basename blind_env ''/tmp/uploads/stego/cat_stego.png'' = ''cat_stego.png''"
  "store_error blind_env = None"
  "next_id staged = 0" "db staged = []"
  by (simp_all add: elapsed_def encrypted_name_def scenario_defs dec_eval)

lemma blind_offline_encrypt:
  "post_encrypt blind_offline_env (Some cat_upload) (Some (FText ''abcdefgh'')) (Some (FText ''tent'')) staged =
    (Json 500 (error_body (JStr ''connect ECONNREFUSED 127.0.0.1:27017'')),
     \<lparr>files = {''/tmp/uploads/original/1700000000000-42-cat.png'', ''/tmp/uploads/encrypted/cat.bin''},
      db = [], next_id = 0,
      events = [Exec encrypt_command exec_opts, Exec measure_command exec_opts,
        Respond (Json 500 (error_body (JStr ''connect ECONNREFUSED 127.0.0.1:27017'')))]\<rparr>)"
  by (simp add: route_defs invoker_defs scenario_defs dec_eval insert_commute)

lemma blind_offline_transformation_value:
  "fst (encrypt_transformation blind_offline_env cat_upload (Some (FText ''abcdefgh'')) (Some (FText ''tent'')) staged)
     = Inr (JObj [(''success'', JBool True),
                 (''encrypted_path'', JStr ''/tmp/uploads/encrypted/cat.bin'')])"
  by (simp add: encrypt_transformation_def route_defs invoker_defs scenario_defs)

lemma blind_offline_measurement_value:
  "fst (encrypt_measurement blind_offline_env cat_upload
          (JObj [(''success'', JBool True),
                 (''encrypted_path'', JStr ''/tmp/uploads/encrypted/cat.bin'')]) w1)
     = Inl (''Command failed: '' @ measure_command @ [CHR 0x0A])"
  by (simp add: encrypt_measurement_def route_defs invoker_defs scenario_defs)

subsection \<open>The status of what is stored\<close>

lemma post_encrypt_status:
  "r \<in> set (db (snd (post_encrypt e req_file key m w))) \<Longrightarrow>
   r \<in> set (db w) \<or> status (snd r) = ''completed''"
proof (cases rule: post_encrypt_cases [of e req_file key m w])
  case rejected
  assume "r \<in> set (db (snd (post_encrypt e req_file key m w)))"
  with rejected show ?thesis by simp
next
  case (saved f payload w1 cm w2 d)
  assume a: "r \<in> set (db (snd (post_encrypt e req_file key m w)))"
  have "status d = ''completed''"
    using EncryptedImage_fields [OF saved(8)] by (simp add: encrypt_newImage_def)
  with a saved(10) show ?thesis by auto
next
  case (refused f payload w1 cm w2 message)
  assume a: "r \<in> set (db (snd (post_encrypt e req_file key m w)))"
  have "db w2 = db w"
    using encryption_metrics_result_world [OF refused(7)]
          invoke_result_world [OF refused(4) [unfolded encrypt_transformation_def]] by simp
  with a refused(9) show ?thesis by simp
qed

lemma post_encrypt_stego_status:
  "r \<in> set (db (snd (post_encrypt_stego e req_files key m w))) \<Longrightarrow>
   r \<in> set (db w) \<or> status (snd r) = ''completed''"
proof (cases rule: post_encrypt_stego_cases [of e req_files key m w])
  case rejected
  assume "r \<in> set (db (snd (post_encrypt_stego e req_files key m w)))"
  with rejected show ?thesis by simp
next
  case (no_path s c payload w1)
  assume a: "r \<in> set (db (snd (post_encrypt_stego e req_files key m w)))"
  have "db w1 = db w"
    using invoke_result_world [OF no_path(4) [unfolded stego_transformation_def]] by simp
  with a no_path(8) show ?thesis by simp
next
  case (saved s c payload w1 sp cm w2 d)
  assume a: "r \<in> set (db (snd (post_encrypt_stego e req_files key m w)))"
  have "status d = ''completed''"
    using EncryptedImage_fields [OF saved(9)] by (simp add: stego_newImage_def)
  with a saved(11) show ?thesis by auto
next
  case (refused s c payload w1 sp cm w2 message)
  assume a: "r \<in> set (db (snd (post_encrypt_stego e req_files key m w)))"
  have "db w2 = db w"
    using stego_metrics_result_world [OF refused(8)]
          invoke_result_world [OF refused(4) [unfolded stego_transformation_def]] by simp
  with a refused(10) show ?thesis by simp
qed

lemma handle_status:
  "r \<in> set (db (snd (handle e rq w))) \<Longrightarrow> r \<in> set (db w) \<or> status (snd r) = ''completed''"
proof (cases rq)
  case (PostEncrypt f key m)
  then show "r \<in> set (db (snd (handle e rq w))) \<Longrightarrow> ?thesis"
    using post_encrypt_status [of r e f key m w] by simp
next
  case (PostDecrypt f k)
  then show "r \<in> set (db (snd (handle e rq w))) \<Longrightarrow> ?thesis"
    by (simp add: post_decrypt_db)
next
  case (PostEncryptStego fs key m)
  then show "r \<in> set (db (snd (handle e rq w))) \<Longrightarrow> ?thesis"
    using post_encrypt_stego_status [of r e fs key m w] by simp
next
  case (PostDecryptStego f k)
  then show "r \<in> set (db (snd (handle e rq w))) \<Longrightarrow> ?thesis"
    by (simp add: post_decrypt_stego_db)
next
  case (DeleteImage i)
  then show "r \<in> set (db (snd (handle e rq w))) \<Longrightarrow> ?thesis"
    using delete_image_db [of e i w] by auto
next
  case (GetDownload i)
  then show "r \<in> set (db (snd (handle e rq w))) \<Longrightarrow> ?thesis"
    by (simp add: get_download_db)
next
  case (GetDownloadStego i)
  then show "r \<in> set (db (snd (handle e rq w))) \<Longrightarrow> ?thesis"
    by (simp add: get_download_stego_db)
qed

lemma run_status:
  "\<forall>r \<in> set (db w). status (snd r) = ''completed'' \<Longrightarrow>
   \<forall>r \<in> set (db (run trace w)). status (snd r) = ''completed''"
proof (induction trace arbitrary: w)
  case Nil
  then show ?case by simp
next
  case (Cons step rest)
  obtain e rq where step: "step = (e, rq)" by (cases step)
  have "\<forall>r \<in> set (db (snd (handle e rq w))). status (snd r) = ''completed''"
    using Cons.prems handle_status [of _ e rq w] by blast
  from Cons.IH [OF this] step show ?case by simp
qed

lemma happy_run:
  "run [(happy_env, PostEncrypt (Some cat_upload) (Some (FText ''abcdefgh'')) (Some (FText ''tent''))),
        (crash_env, PostDecrypt (Some cat_upload) (Some (FText ''abcdefgh'')))] staged
   = \<lparr>files = {''/tmp/uploads/original/1700000000000-42-cat.png'', ''/tmp/uploads/encrypted/cat.bin''},
      db = [(0, cat_doc)], next_id = 1,
      events = [Exec encrypt_command exec_opts, Exec measure_command exec_opts, Saved 0,
        Respond (Json 200 (encrypt_ok_body 0 ''cat_encrypted_1700000000101.bin'' 250
        [(''encryptionTime'', JNum 250),
         (''entropy'', JObj [(''original'', JNum 0), (''encrypted'', JNum 0)]),
         (''NPCR'', JNum (996 / 10)),
         (''UACI'', JNum (334 / 10)),
         (''correlation'', JNum 0),
         (''PSNR'', JNum 0),
         (''MSE'', JNum 0)])),
        Exec decrypt_command exec_opts,
        Respond (Json 500 (error_body (JStr ''Traceback (most recent call last)'')))]\<rparr>"
  by (simp add: happy_encrypt) (simp add: route_defs invoker_defs scenario_defs)


subsection \<open>What becomes of a transformation that succeeded\<close>

lemma encrypt_complete_invalid:
  assumes "encryption_metrics e (path f) (get payload ''encrypted_path'') (elapsed e) w1 = (cm, w2)"
      and "EncryptedImage e (encrypt_newImage e f mp (get payload ''encrypted_path'') cm) = None"
  shows "encrypt_complete e f mp payload w1 = (Threw (validation_message e), w2)"
  using assms by (simp add: encrypt_complete_def elapsed_def save_def)

lemma encrypt_complete_store_error:
  assumes "encryption_metrics e (path f) (get payload ''encrypted_path'') (elapsed e) w1 = (cm, w2)"
      and "EncryptedImage e (encrypt_newImage e f mp (get payload ''encrypted_path'') cm) = Some d"
      and "store_error e = Some message"
  shows "encrypt_complete e f mp payload w1 = (Threw message, w2)"
  using assms by (simp add: encrypt_complete_def elapsed_def save_def)

lemma stego_complete_invalid:
  assumes "get payload ''stego_path'' = Some (JStr sp)"
      and "stego_metrics e (path c) sp (elapsed e) w1 = (cm, w2)"
      and "EncryptedImage e (stego_newImage s mp (path_basename e sp) sp cm) = None"
  shows "stego_complete e s c mp payload w1 = (Threw (validation_message e), w2)"
  using assms by (simp add: stego_complete_def elapsed_def save_def Let_def)

lemma stego_complete_store_error:
  assumes "get payload ''stego_path'' = Some (JStr sp)"
      and "stego_metrics e (path c) sp (elapsed e) w1 = (cm, w2)"
      and "EncryptedImage e (stego_newImage s mp (path_basename e sp) sp cm) = Some d"
      and "store_error e = Some message"
  shows "stego_complete e s c mp payload w1 = (Threw message, w2)"
  using assms by (simp add: stego_complete_def elapsed_def save_def Let_def)

lemma post_encrypt_outcome:
  assumes "\<not> key_refused e key" and "encrypt_transformation e f key m w = (Inr payload, w1)"
      and "reports_success (Inr payload)"
      and "encryption_metrics e (path f) (get payload ''encrypted_path'') (elapsed e) w1 = (cm, w2)"
  shows "EncryptedImage e (encrypt_newImage e f (map_or_default m)
                             (get payload ''encrypted_path'') cm) = Some d
         \<Longrightarrow> store_error e = None
         \<Longrightarrow> db (snd (post_encrypt e (Some f) key m w)) = db w @ [(next_id w, d)]
             \<and> fst (post_encrypt e (Some f) key m w)
                 = Json 200 (encrypt_ok_body (next_id w) (encrypted_name e f) (elapsed e) cm)"
    and "EncryptedImage e (encrypt_newImage e f (map_or_default m)
                             (get payload ''encrypted_path'') cm) = Some d
         \<Longrightarrow> store_error e = Some message
         \<Longrightarrow> db (snd (post_encrypt e (Some f) key m w)) = db w
             \<and> fst (post_encrypt e (Some f) key m w) = Json 500 (error_body (JStr message))"
    and "EncryptedImage e (encrypt_newImage e f (map_or_default m)
                             (get payload ''encrypted_path'') cm) = None
         \<Longrightarrow> db (snd (post_encrypt e (Some f) key m w)) = db w
             \<and> fst (post_encrypt e (Some f) key m w)
                 = Json 500 (error_body (JStr (validation_message e)))"
proof -
  have p: "payload \<noteq> JNull" "truthy (get payload ''success'')"
    using assms(3) by (simp_all add: reports_success_def)
  have w1: "db w1 = db w" "next_id w1 = next_id w"
    using invoke_result_world [OF assms(2) [unfolded encrypt_transformation_def]] by simp_all
  have w2: "db w2 = db w" "next_id w2 = next_id w"
    using encryption_metrics_result_world [OF assms(4)] w1 by simp_all
  have pe: "post_encrypt e (Some f) key m w
              = catch_500 (encrypt_complete e f (map_or_default m) payload w1)"
    using p by (simp add: post_encrypt_def encrypt_try_run [OF assms(1,2)])
  {
    assume d: "EncryptedImage e (encrypt_newImage e f (map_or_default m)
                             (get payload ''encrypted_path'') cm) = Some d"
       and s: "store_error e = None"
    show "db (snd (post_encrypt e (Some f) key m w)) = db w @ [(next_id w, d)]
             \<and> fst (post_encrypt e (Some f) key m w)
                 = Json 200 (encrypt_ok_body (next_id w) (encrypted_name e f) (elapsed e) cm)"
      by (simp add: pe encrypt_complete_accepted [OF assms(4) d s] catch_send w2)
  }
  {
    assume d: "EncryptedImage e (encrypt_newImage e f (map_or_default m)
                             (get payload ''encrypted_path'') cm) = Some d"
       and s: "store_error e = Some message"
    show "db (snd (post_encrypt e (Some f) key m w)) = db w
             \<and> fst (post_encrypt e (Some f) key m w) = Json 500 (error_body (JStr message))"
      by (simp add: pe encrypt_complete_store_error [OF assms(4) d s] catch_threw w2)
  }
  {
    assume d: "EncryptedImage e (encrypt_newImage e f (map_or_default m)
                             (get payload ''encrypted_path'') cm) = None"
    show "db (snd (post_encrypt e (Some f) key m w)) = db w
             \<and> fst (post_encrypt e (Some f) key m w)
                 = Json 500 (error_body (JStr (validation_message e)))"
      by (simp add: pe encrypt_complete_invalid [OF assms(4) d] catch_threw w2)
  }
qed

lemma post_encrypt_stego_no_path:
  assumes "\<not> key_refused e key" and "stego_transformation e s c key m w = (Inr payload, w1)"
      and "reports_success (Inr payload)"
      and "\<forall>sp. get payload ''stego_path'' \<noteq> Some (JStr sp)"
  shows "db (snd (post_encrypt_stego e (Some (Some s, Some c)) key m w)) = db w
         \<and> fst (post_encrypt_stego e (Some (Some s, Some c)) key m w)
             = Json 500 (error_body (JStr (invalid_arg_message e (get payload ''stego_path''))))"
proof -
  have p: "payload \<noteq> JNull" "truthy (get payload ''success'')"
    using assms(3) by (simp_all add: reports_success_def)
  have w1: "db w1 = db w"
    using invoke_result_world [OF assms(2) [unfolded stego_transformation_def]] by simp
  have pe: "post_encrypt_stego e (Some (Some s, Some c)) key m w
              = catch_500 (stego_complete e s c (map_or_default m) payload w1)"
    using p by (simp add: post_encrypt_stego_def stego_try_run [OF assms(1,2)])
  show ?thesis
    by (simp add: pe stego_complete_no_path [OF assms(4)] catch_threw w1)
qed

lemma post_encrypt_stego_outcome:
  assumes "\<not> key_refused e key" and "stego_transformation e s c key m w = (Inr payload, w1)"
      and "reports_success (Inr payload)"
      and "get payload ''stego_path'' = Some (JStr sp)"
      and "stego_metrics e (path c) sp (elapsed e) w1 = (cm, w2)"
  shows "EncryptedImage e (stego_newImage s (map_or_default m) (path_basename e sp) sp cm) = Some d
         \<Longrightarrow> store_error e = None
         \<Longrightarrow> db (snd (post_encrypt_stego e (Some (Some s, Some c)) key m w))
               = db w @ [(next_id w, d)]
             \<and> fst (post_encrypt_stego e (Some (Some s, Some c)) key m w)
                 = Json 200 (stego_ok_body (next_id w) (path_basename e sp) (elapsed e) cm)"
    and "EncryptedImage e (stego_newImage s (map_or_default m) (path_basename e sp) sp cm) = Some d
         \<Longrightarrow> store_error e = Some message
         \<Longrightarrow> db (snd (post_encrypt_stego e (Some (Some s, Some c)) key m w)) = db w
             \<and> fst (post_encrypt_stego e (Some (Some s, Some c)) key m w)
                 = Json 500 (error_body (JStr message))"
    and "EncryptedImage e (stego_newImage s (map_or_default m) (path_basename e sp) sp cm) = None
         \<Longrightarrow> db (snd (post_encrypt_stego e (Some (Some s, Some c)) key m w)) = db w
             \<and> fst (post_encrypt_stego e (Some (Some s, Some c)) key m w)
                 = Json 500 (error_body (JStr (validation_message e)))"
proof -
  have p: "payload \<noteq> JNull" "truthy (get payload ''success'')"
    using assms(3) by (simp_all add: reports_success_def)
  have w1: "db w1 = db w" "next_id w1 = next_id w"
    using invoke_result_world [OF assms(2) [unfolded stego_transformation_def]] by simp_all
  have w2: "db w2 = db w" "next_id w2 = next_id w"
    using stego_metrics_result_world [OF assms(5)] w1 by simp_all
  have pe: "post_encrypt_stego e (Some (Some s, Some c)) key m w
              = catch_500 (stego_complete e s c (map_or_default m) payload w1)"
    using p by (simp add: post_encrypt_stego_def stego_try_run [OF assms(1,2)])
  {
    assume d: "EncryptedImage e (stego_newImage s (map_or_default m) (path_basename e sp) sp cm)
                 = Some d"
       and s: "store_error e = None"
    show "db (snd (post_encrypt_stego e (Some (Some s, Some c)) key m w))
               = db w @ [(next_id w, d)]
             \<and> fst (post_encrypt_stego e (Some (Some s, Some c)) key m w)
                 = Json 200 (stego_ok_body (next_id w) (path_basename e sp) (elapsed e) cm)"
      by (simp add: pe stego_complete_accepted [OF assms(4,5) d s] catch_send w2)
  }
  {
    assume d: "EncryptedImage e (stego_newImage s (map_or_default m) (path_basename e sp) sp cm)
                 = Some d"
       and s: "store_error e = Some message"
    show "db (snd (post_encrypt_stego e (Some (Some s, Some c)) key m w)) = db w
             \<and> fst (post_encrypt_stego e (Some (Some s, Some c)) key m w)
                 = Json 500 (error_body (JStr message))"
      by (simp add: pe stego_complete_store_error [OF assms(4,5) d s] catch_threw w2)
  }
  {
    assume d: "EncryptedImage e (stego_newImage s (map_or_default m) (path_basename e sp) sp cm)
                 = None"
    show "db (snd (post_encrypt_stego e (Some (Some s, Some c)) key m w)) = db w
             \<and> fst (post_encrypt_stego e (Some (Some s, Some c)) key m w)
                 = Json 500 (error_body (JStr (validation_message e)))"
      by (simp add: pe stego_complete_invalid [OF assms(4,5) d] catch_threw w2)
  }
qed


subsection \<open>Runs with a metrics script that answers\<close>

lemma happy_metrics_value:
  "fst (encryption_metrics happy_env (path cat_upload)
          (Some (JStr ''/tmp/uploads/encrypted/cat.bin'')) t w1)
     = [(''encryptionTime'', JNum (of_int t)),
        (''entropy'', JObj [(''original'', JNum 0), (''encrypted'', JNum 0)]),
        (''NPCR'', JNum (996 / 10)),
        (''UACI'', JNum (334 / 10)),
        (''correlation'', JNum 0),
        (''PSNR'', JNum 0),
        (''MSE'', JNum 0)]"
  by (simp add: route_defs invoker_defs scenario_defs)

lemma offline_metrics_value:
  "fst (encryption_metrics offline_env (path cat_upload)
          (Some (JStr ''/tmp/uploads/encrypted/cat.bin'')) t w1)
     = [(''encryptionTime'', JNum (of_int t)),
        (''entropy'', JObj [(''original'', JNum 0), (''encrypted'', JNum 0)]),
        (''NPCR'', JNum (996 / 10)),
        (''UACI'', JNum (334 / 10)),
        (''correlation'', JNum 0),
        (''PSNR'', JNum 0),
        (''MSE'', JNum 0)]"
  by (simp add: route_defs invoker_defs scenario_defs)

lemma happy_document:
  "EncryptedImage happy_env
     (encrypt_newImage happy_env cat_upload (map_or_default (Some (FText ''tent'')))
        (get (JObj [(''success'', JBool True),
                    (''encrypted_path'', JStr ''/tmp/uploads/encrypted/cat.bin'')])
             ''encrypted_path'')
        [(''encryptionTime'', JNum (of_int (elapsed happy_env))),
         (''entropy'', JObj [(''original'', JNum 0), (''encrypted'', JNum 0)]),
         (''NPCR'', JNum (996 / 10)),
         (''UACI'', JNum (334 / 10)),
         (''correlation'', JNum 0),
         (''PSNR'', JNum 0),
         (''MSE'', JNum 0)])
     = Some cat_doc"
  by (simp add: route_defs invoker_defs scenario_defs elapsed_def dec_eval)

lemma offline_document:
  "EncryptedImage offline_env
     (encrypt_newImage offline_env cat_upload (map_or_default (Some (FText ''tent'')))
        (get (JObj [(''success'', JBool True),
                    (''encrypted_path'', JStr ''/tmp/uploads/encrypted/cat.bin'')])
             ''encrypted_path'')
        [(''encryptionTime'', JNum (of_int (elapsed offline_env))),
         (''entropy'', JObj [(''original'', JNum 0), (''encrypted'', JNum 0)]),
         (''NPCR'', JNum (996 / 10)),
         (''UACI'', JNum (334 / 10)),
         (''correlation'', JNum 0),
         (''PSNR'', JNum 0),
         (''MSE'', JNum 0)])
     = Some cat_doc"
  by (simp add: route_defs invoker_defs scenario_defs elapsed_def dec_eval)

lemma happy_readings:
  "elapsed happy_env = 250"
  "encrypted_name happy_env cat_upload = ''cat_encrypted_1700000000101.bin''"
  "store_error happy_env = None"
  "elapsed offline_env = 250"
  "store_error offline_env = Some ''connect ECONNREFUSED 127.0.0.1:27017''"
  "\<not> key_refused e (Some (FText ''abcdefgh''))"
  by (simp_all add: elapsed_def encrypted_name_def scenario_defs dec_eval key_refused_def
        length_below_8_def)


subsection \<open>Runs with a metrics script that prints a text for a number\<close>

lemma garbled_encrypt:
  "post_encrypt garbled_env (Some cat_upload) (Some (FText ''abcdefgh'')) (Some (FText ''tent'')) staged =
    (Json 500 (error_body (JStr garbled_message)),
     \<lparr>files = {''/tmp/uploads/original/1700000000000-42-cat.png'', ''/tmp/uploads/encrypted/cat.bin''},
      db = [], next_id = 0,
      events = [Exec encrypt_command exec_opts, Exec measure_command exec_opts,
        Respond (Json 500 (error_body (JStr garbled_message)))]\<rparr>)"
  by (simp add: route_defs invoker_defs scenario_defs dec_eval insert_commute)

lemma garbled_transformation_value:
  "fst (encrypt_transformation garbled_env cat_upload (Some (FText ''abcdefgh''))
          (Some (FText ''tent'')) staged)
     = Inr (JObj [(''success'', JBool True),
                 (''encrypted_path'', JStr ''/tmp/uploads/encrypted/cat.bin'')])"
  by (simp add: encrypt_transformation_def route_defs invoker_defs scenario_defs)

lemma garbled_measurement_value:
  "fst (encrypt_measurement garbled_env cat_upload
          (JObj [(''success'', JBool True),
                 (''encrypted_path'', JStr ''/tmp/uploads/encrypted/cat.bin'')]) w1)
     = Inr (JObj [(''success'', JBool True), (''entropy'', JObj [(''original'', JStr ''n/a'')])])"
  by (simp add: encrypt_measurement_def route_defs invoker_defs scenario_defs)

lemma garbled_store: "store_error garbled_env = None"
  by (simp add: scenario_defs)

section \<open>Records and transformations\<close>

text \<open>
  Claim C1, as the code has it. In \<open>POST /encrypt\<close> and \<open>POST /encrypt-stego\<close> a
  request adds at most one document to the store. It adds one only if its
  transformation script reported success, and then the document is saved after both
  scripts have run and before the response is sent. When the transformation reported
  success, what follows is decided by \<open>save()\<close>: if the document passes the schema's
  validation and the store reports no error, that document is added and the response
  is the 200 success body; if the store reports an error, nothing is added and the
  response is a 500 with the store's message; if the document fails validation,
  nothing is added and the response is a 500 with the validation message. In
  \<open>/encrypt-stego\<close>, when the reported \<open>stego_path\<close> is not a string,
  \<open>path.basename\<close> throws before anything is saved: nothing is added and the
  response is a 500 with that error's message. \<open>POST /decrypt\<close> and
  \<open>POST /decrypt-stego\<close> never add a document, whatever their transformation reports.
\<close>

theorem record_follows_transformation:
  "((db (snd (post_encrypt e req_file key m w)) = db w
      \<or> (\<exists>d. db (snd (post_encrypt e req_file key m w)) = db w @ [(next_id w, d)]))
   \<and> (db (snd (post_encrypt e req_file key m w)) \<noteq> db w \<longrightarrow>
        (\<exists>f c. req_file = Some f \<and> \<not> key_refused e key
            \<and> reports_success (fst (encrypt_transformation e f key m w))
            \<and> events (snd (post_encrypt e req_file key m w))
                = events (snd (encrypt_transformation e f key m w))
                    @ [Exec c exec_opts, Saved (next_id w),
                       Respond (fst (post_encrypt e req_file key m w))]))
   \<and> (\<forall>f payload w1 cm w2.
         req_file = Some f \<and> \<not> key_refused e key
         \<and> encrypt_transformation e f key m w = (Inr payload, w1)
         \<and> reports_success (Inr payload)
         \<and> encryption_metrics e (path f) (get payload ''encrypted_path'') (elapsed e) w1
             = (cm, w2) \<longrightarrow>
           (\<forall>d. EncryptedImage e (encrypt_newImage e f (map_or_default m)
                                     (get payload ''encrypted_path'') cm) = Some d
                 \<and> store_error e = None \<longrightarrow>
                   db (snd (post_encrypt e req_file key m w)) = db w @ [(next_id w, d)]
                 \<and> fst (post_encrypt e req_file key m w)
                     = Json 200 (encrypt_ok_body (next_id w) (encrypted_name e f) (elapsed e) cm))
         \<and> (\<forall>d message. EncryptedImage e (encrypt_newImage e f (map_or_default m)
                                     (get payload ''encrypted_path'') cm) = Some d
                 \<and> store_error e = Some message \<longrightarrow>
                   db (snd (post_encrypt e req_file key m w)) = db w
                 \<and> fst (post_encrypt e req_file key m w) = Json 500 (error_body (JStr message)))
         \<and> (EncryptedImage e (encrypt_newImage e f (map_or_default m)
                                     (get payload ''encrypted_path'') cm) = None \<longrightarrow>
                   db (snd (post_encrypt e req_file key m w)) = db w
                 \<and> fst (post_encrypt e req_file key m w)
                     = Json 500 (error_body (JStr (validation_message e))))))
  \<and> ((db (snd (post_encrypt_stego e req_files key m w)) = db w
      \<or> (\<exists>d. db (snd (post_encrypt_stego e req_files key m w)) = db w @ [(next_id w, d)]))
   \<and> (db (snd (post_encrypt_stego e req_files key m w)) \<noteq> db w \<longrightarrow>
        (\<exists>s c x. req_files = Some (Some s, Some c) \<and> \<not> key_refused e key
            \<and> reports_success (fst (stego_transformation e s c key m w))
            \<and> events (snd (post_encrypt_stego e req_files key m w))
                = events (snd (stego_transformation e s c key m w))
                    @ [Exec x exec_opts, Saved (next_id w),
                       Respond (fst (post_encrypt_stego e req_files key m w))]))
   \<and> (\<forall>s c payload w1.
         req_files = Some (Some s, Some c) \<and> \<not> key_refused e key
         \<and> stego_transformation e s c key m w = (Inr payload, w1)
         \<and> reports_success (Inr payload) \<longrightarrow>
           ((\<forall>sp. get payload ''stego_path'' \<noteq> Some (JStr sp)) \<longrightarrow>
                   db (snd (post_encrypt_stego e req_files key m w)) = db w
                 \<and> fst (post_encrypt_stego e req_files key m w)
                     = Json 500 (error_body
                         (JStr (invalid_arg_message e (get payload ''stego_path'')))))
         \<and> (\<forall>sp cm w2.
               get payload ''stego_path'' = Some (JStr sp)
               \<and> stego_metrics e (path c) sp (elapsed e) w1 = (cm, w2) \<longrightarrow>
                 (\<forall>d. EncryptedImage e (stego_newImage s (map_or_default m)
                                           (path_basename e sp) sp cm) = Some d
                       \<and> store_error e = None \<longrightarrow>
                         db (snd (post_encrypt_stego e req_files key m w))
                           = db w @ [(next_id w, d)]
                       \<and> fst (post_encrypt_stego e req_files key m w)
                           = Json 200 (stego_ok_body (next_id w) (path_basename e sp)
                                         (elapsed e) cm))
               \<and> (\<forall>d message. EncryptedImage e (stego_newImage s (map_or_default m)
                                           (path_basename e sp) sp cm) = Some d
                       \<and> store_error e = Some message \<longrightarrow>
                         db (snd (post_encrypt_stego e req_files key m w)) = db w
                       \<and> fst (post_encrypt_stego e req_files key m w)
                           = Json 500 (error_body (JStr message)))
               \<and> (EncryptedImage e (stego_newImage s (map_or_default m)
                                           (path_basename e sp) sp cm) = None \<longrightarrow>
                         db (snd (post_encrypt_stego e req_files key m w)) = db w
                       \<and> fst (post_encrypt_stego e req_files key m w)
                           = Json 500 (error_body (JStr (validation_message e)))))))
  \<and> db (snd (post_decrypt e req_file key w)) = db w
  \<and> db (snd (post_decrypt_stego e req_file key w)) = db w"
proof (intro conjI allI impI; (elim conjE)?)
  show "db (snd (post_encrypt e req_file key m w)) = db w
      \<or> (\<exists>d. db (snd (post_encrypt e req_file key m w)) = db w @ [(next_id w, d)])"
    by (rule post_encrypt_record [THEN conjunct1])
  show "db (snd (post_encrypt_stego e req_files key m w)) = db w
      \<or> (\<exists>d. db (snd (post_encrypt_stego e req_files key m w)) = db w @ [(next_id w, d)])"
    by (rule post_encrypt_stego_record [THEN conjunct1])
  show "db (snd (post_decrypt e req_file key w)) = db w"
    by (rule post_decrypt_db)
  show "db (snd (post_decrypt_stego e req_file key w)) = db w"
    by (rule post_decrypt_stego_db)
next
  assume "db (snd (post_encrypt e req_file key m w)) \<noteq> db w"
  then show "\<exists>f c. req_file = Some f \<and> \<not> key_refused e key
            \<and> reports_success (fst (encrypt_transformation e f key m w))
            \<and> events (snd (post_encrypt e req_file key m w))
                = events (snd (encrypt_transformation e f key m w))
                    @ [Exec c exec_opts, Saved (next_id w),
                       Respond (fst (post_encrypt e req_file key m w))]"
    by (rule post_encrypt_record [THEN conjunct2, THEN conjunct1, THEN mp])
next
  assume "db (snd (post_encrypt_stego e req_files key m w)) \<noteq> db w"
  then show "\<exists>s c x. req_files = Some (Some s, Some c) \<and> \<not> key_refused e key
            \<and> reports_success (fst (stego_transformation e s c key m w))
            \<and> events (snd (post_encrypt_stego e req_files key m w))
                = events (snd (stego_transformation e s c key m w))
                    @ [Exec x exec_opts, Saved (next_id w),
                       Respond (fst (post_encrypt_stego e req_files key m w))]"
    by (rule post_encrypt_stego_record [THEN conjunct2, THEN conjunct1, THEN mp])
next
  fix f payload w1 cm w2 d
  assume a: "req_file = Some f" "\<not> key_refused e key"
    "encrypt_transformation e f key m w = (Inr payload, w1)" "reports_success (Inr payload)"
    "encryption_metrics e (path f) (get payload ''encrypted_path'') (elapsed e) w1 = (cm, w2)"
  assume d: "EncryptedImage e (encrypt_newImage e f (map_or_default m)
                                 (get payload ''encrypted_path'') cm) = Some d"
    "store_error e = None"
  from post_encrypt_outcome(1) [OF a(2-5) d]
  show "db (snd (post_encrypt e req_file key m w)) = db w @ [(next_id w, d)]"
    and "fst (post_encrypt e req_file key m w)
           = Json 200 (encrypt_ok_body (next_id w) (encrypted_name e f) (elapsed e) cm)"
    by (simp_all add: a(1))
next
  fix f payload w1 cm w2 d message
  assume a: "req_file = Some f" "\<not> key_refused e key"
    "encrypt_transformation e f key m w = (Inr payload, w1)" "reports_success (Inr payload)"
    "encryption_metrics e (path f) (get payload ''encrypted_path'') (elapsed e) w1 = (cm, w2)"
  assume d: "EncryptedImage e (encrypt_newImage e f (map_or_default m)
                                 (get payload ''encrypted_path'') cm) = Some d"
    "store_error e = Some message"
  from post_encrypt_outcome(2) [OF a(2-5) d]
  show "db (snd (post_encrypt e req_file key m w)) = db w"
    and "fst (post_encrypt e req_file key m w) = Json 500 (error_body (JStr message))"
    by (simp_all add: a(1))
next
  fix f payload w1 cm w2
  assume a: "req_file = Some f" "\<not> key_refused e key"
    "encrypt_transformation e f key m w = (Inr payload, w1)" "reports_success (Inr payload)"
    "encryption_metrics e (path f) (get payload ''encrypted_path'') (elapsed e) w1 = (cm, w2)"
  assume d: "EncryptedImage e (encrypt_newImage e f (map_or_default m)
                                 (get payload ''encrypted_path'') cm) = None"
  from post_encrypt_outcome(3) [OF a(2-5) d]
  show "db (snd (post_encrypt e req_file key m w)) = db w"
    and "fst (post_encrypt e req_file key m w)
           = Json 500 (error_body (JStr (validation_message e)))"
    by (simp_all add: a(1))
next
  fix s c payload w1
  assume a: "req_files = Some (Some s, Some c)" "\<not> key_refused e key"
    "stego_transformation e s c key m w = (Inr payload, w1)" "reports_success (Inr payload)"
  assume n: "\<forall>sp. get payload ''stego_path'' \<noteq> Some (JStr sp)"
  from post_encrypt_stego_no_path [OF a(2-4) n]
  show "db (snd (post_encrypt_stego e req_files key m w)) = db w"
    and "fst (post_encrypt_stego e req_files key m w)
           = Json 500 (error_body (JStr (invalid_arg_message e (get payload ''stego_path''))))"
    by (simp_all add: a(1))
next
  fix s c payload w1 sp cm w2 d
  assume a: "req_files = Some (Some s, Some c)" "\<not> key_refused e key"
    "stego_transformation e s c key m w = (Inr payload, w1)" "reports_success (Inr payload)"
    "get payload ''stego_path'' = Some (JStr sp)"
    "stego_metrics e (path c) sp (elapsed e) w1 = (cm, w2)"
  assume d: "EncryptedImage e (stego_newImage s (map_or_default m) (path_basename e sp) sp cm)
               = Some d"
    "store_error e = None"
  from post_encrypt_stego_outcome(1) [OF a(2-6) d]
  show "db (snd (post_encrypt_stego e req_files key m w)) = db w @ [(next_id w, d)]"
    and "fst (post_encrypt_stego e req_files key m w)
           = Json 200 (stego_ok_body (next_id w) (path_basename e sp) (elapsed e) cm)"
    by (simp_all add: a(1))
next
  fix s c payload w1 sp cm w2 d message
  assume a: "req_files = Some (Some s, Some c)" "\<not> key_refused e key"
    "stego_transformation e s c key m w = (Inr payload, w1)" "reports_success (Inr payload)"
    "get payload ''stego_path'' = Some (JStr sp)"
    "stego_metrics e (path c) sp (elapsed e) w1 = (cm, w2)"
  assume d: "EncryptedImage e (stego_newImage s (map_or_default m) (path_basename e sp) sp cm)
               = Some d"
    "store_error e = Some message"
  from post_encrypt_stego_outcome(2) [OF a(2-6) d]
  show "db (snd (post_encrypt_stego e req_files key m w)) = db w"
    and "fst (post_encrypt_stego e req_files key m w) = Json 500 (error_body (JStr message))"
    by (simp_all add: a(1))
next
  fix s c payload w1 sp cm w2
  assume a: "req_files = Some (Some s, Some c)" "\<not> key_refused e key"
    "stego_transformation e s c key m w = (Inr payload, w1)" "reports_success (Inr payload)"
    "get payload ''stego_path'' = Some (JStr sp)"
    "stego_metrics e (path c) sp (elapsed e) w1 = (cm, w2)"
  assume d: "EncryptedImage e (stego_newImage s (map_or_default m) (path_basename e sp) sp cm)
               = None"
  from post_encrypt_stego_outcome(3) [OF a(2-6) d]
  show "db (snd (post_encrypt_stego e req_files key m w)) = db w"
    and "fst (post_encrypt_stego e req_files key m w)
           = Json 500 (error_body (JStr (validation_message e)))"
    by (simp_all add: a(1))
qed

text \<open>
  An encryption that is stored, the same encryption with a store that cannot be
  reached, a hiding that is stored, and a decryption.
\<close>

theorem record_follows_transformation_witness:
  "reports_success (fst (encrypt_transformation happy_env cat_upload (Some (FText ''abcdefgh''))
                           (Some (FText ''tent'')) staged))
   \<and> store_error happy_env = None
   \<and> db (snd (post_encrypt happy_env (Some cat_upload) (Some (FText ''abcdefgh''))
                 (Some (FText ''tent'')) staged))
       = db staged @ [(next_id staged, cat_doc)]
   \<and> fst (post_encrypt happy_env (Some cat_upload) (Some (FText ''abcdefgh''))
            (Some (FText ''tent'')) staged)
       = Json 200 (encrypt_ok_body 0 ''cat_encrypted_1700000000101.bin'' 250
           [(''encryptionTime'', JNum 250),
            (''entropy'', JObj [(''original'', JNum 0), (''encrypted'', JNum 0)]),
            (''NPCR'', JNum (996 / 10)),
            (''UACI'', JNum (334 / 10)),
            (''correlation'', JNum 0),
            (''PSNR'', JNum 0),
            (''MSE'', JNum 0)])
   \<and> reports_success (fst (encrypt_transformation offline_env cat_upload (Some (FText ''abcdefgh''))
                             (Some (FText ''tent'')) staged))
   \<and> store_error offline_env = Some ''connect ECONNREFUSED 127.0.0.1:27017''
   \<and> db (snd (post_encrypt offline_env (Some cat_upload) (Some (FText ''abcdefgh''))
                 (Some (FText ''tent'')) staged))
       = db staged
   \<and> fst (post_encrypt offline_env (Some cat_upload) (Some (FText ''abcdefgh''))
            (Some (FText ''tent'')) staged)
       = Json 500 (error_body (JStr ''connect ECONNREFUSED 127.0.0.1:27017''))
   \<and> reports_success (fst (stego_transformation blind_env cat_upload cover_upload
                             (Some (FText ''abcdefgh'')) None staged))
   \<and> db (snd (post_encrypt_stego blind_env (Some (Some cat_upload, Some cover_upload))
                 (Some (FText ''abcdefgh'')) None staged))
       = db staged @ [(next_id staged, stego_doc)]
   \<and> db (snd (post_decrypt happy_env (Some cat_upload) (Some (FText ''abcdefgh'')) staged))
       = db staged"
proof -
  let ?K = "Some (FText ''abcdefgh'')"
  let ?M = "Some (FText ''tent'')"
  let ?P = "JObj [(''success'', JBool True),
                  (''encrypted_path'', JStr ''/tmp/uploads/encrypted/cat.bin'')]"
  let ?H = "JObj [(''success'', JBool True),
                  (''stego_path'', JStr ''/tmp/uploads/stego/cat_stego.png'')]"
  let ?W = "snd (encrypt_transformation happy_env cat_upload ?K ?M staged)"
  let ?X = "snd (encrypt_transformation offline_env cat_upload ?K ?M staged)"
  let ?V = "snd (stego_transformation blind_env cat_upload cover_upload ?K None staged)"
  have p: "reports_success (Inr ?P)" "reports_success (Inr ?H)"
    by (simp_all add: reports_success_def)
  have h: "get ?H ''stego_path'' = Some (JStr ''/tmp/uploads/stego/cat_stego.png'')"
    by simp
  have tr: "encrypt_transformation happy_env cat_upload ?K ?M staged = (Inr ?P, ?W)"
    by (simp add: prod_eq_iff happy_transformation_value)
  have me: "encryption_metrics happy_env (path cat_upload) (get ?P ''encrypted_path'')
              (elapsed happy_env) ?W
            = ([(''encryptionTime'', JNum (of_int (elapsed happy_env))),
                (''entropy'', JObj [(''original'', JNum 0), (''encrypted'', JNum 0)]),
                (''NPCR'', JNum (996 / 10)),
                (''UACI'', JNum (334 / 10)),
                (''correlation'', JNum 0),
                (''PSNR'', JNum 0),
                (''MSE'', JNum 0)],
               snd (encryption_metrics happy_env (path cat_upload) (get ?P ''encrypted_path'')
                      (elapsed happy_env) ?W))"
    by (simp add: prod_eq_iff happy_metrics_value)
  have ot: "encrypt_transformation offline_env cat_upload ?K ?M staged = (Inr ?P, ?X)"
    by (simp add: prod_eq_iff offline_transformation_value)
  have om: "encryption_metrics offline_env (path cat_upload) (get ?P ''encrypted_path'')
              (elapsed offline_env) ?X
            = ([(''encryptionTime'', JNum (of_int (elapsed offline_env))),
                (''entropy'', JObj [(''original'', JNum 0), (''encrypted'', JNum 0)]),
                (''NPCR'', JNum (996 / 10)),
                (''UACI'', JNum (334 / 10)),
                (''correlation'', JNum 0),
                (''PSNR'', JNum 0),
                (''MSE'', JNum 0)],
               snd (encryption_metrics offline_env (path cat_upload) (get ?P ''encrypted_path'')
                      (elapsed offline_env) ?X))"
    by (simp add: prod_eq_iff offline_metrics_value)
  have hi: "stego_transformation blind_env cat_upload cover_upload ?K None staged = (Inr ?H, ?V)"
    by (simp add: prod_eq_iff blind_hiding_value)
  have cs: "\<not> reports_success (fst (stego_measurement blind_env cover_upload
                                      ''/tmp/uploads/stego/cat_stego.png'' ?V))"
    by (simp add: blind_comparison_value reports_success_def)
  note sm = stego_metrics_blind [OF cs, of "elapsed blind_env"]
  note enc = record_follows_transformation
      [where e = happy_env and req_file = "Some cat_upload" and key = ?K and m = ?M
         and w = staged,
       THEN conjunct1, THEN conjunct2, THEN conjunct2,
       THEN spec, THEN spec, THEN spec, THEN spec, THEN spec, THEN mp,
       OF conjI [OF refl conjI [OF happy_readings(6) conjI [OF tr conjI [OF p(1) me]]]],
       THEN conjunct1, THEN spec, THEN mp, OF conjI [OF happy_document happy_readings(3)]]
  note off = record_follows_transformation
      [where e = offline_env and req_file = "Some cat_upload" and key = ?K and m = ?M
         and w = staged,
       THEN conjunct1, THEN conjunct2, THEN conjunct2,
       THEN spec, THEN spec, THEN spec, THEN spec, THEN spec, THEN mp,
       OF conjI [OF refl conjI [OF happy_readings(6) conjI [OF ot conjI [OF p(1) om]]]],
       THEN conjunct2, THEN conjunct1, THEN spec, THEN spec, THEN mp,
       OF conjI [OF offline_document happy_readings(5)]]
  note hid = record_follows_transformation
      [where e = blind_env and req_files = "Some (Some cat_upload, Some cover_upload)"
         and key = ?K and m = None and w = staged,
       THEN conjunct2, THEN conjunct1, THEN conjunct2, THEN conjunct2,
       THEN spec, THEN spec, THEN spec, THEN spec, THEN mp,
       OF conjI [OF refl conjI [OF happy_readings(6) conjI [OF hi p(2)]]],
       THEN conjunct2, THEN spec, THEN spec, THEN spec, THEN mp, OF conjI [OF h sm],
       THEN conjunct1, THEN spec, THEN mp, OF conjI [OF blind_stego_document blind_readings(4)]]
  note dcr = record_follows_transformation
      [where e = happy_env and req_file = "Some cat_upload" and key = ?K and w = staged,
       THEN conjunct2, THEN conjunct2, THEN conjunct1]
  show ?thesis
    using enc off hid dcr
    by (simp add: happy_readings blind_readings happy_transformation offline_transformation
          blind_hiding)
qed

text \<open>
  Claim C1 as it is worded fails twice: a decryption whose transformation succeeds
  sends the recovered file and stores nothing, and an encryption whose transformation
  succeeds while the store cannot be reached ends with a 500 and no document.
\<close>

theorem success_without_record:
  "reports_success (fst (decrypt_transformation happy_env cat_upload (Some (FText ''abcdefgh''))
                           staged))
   \<and> fst (post_decrypt happy_env (Some cat_upload) (Some (FText ''abcdefgh'')) staged)
       = Download ''/tmp/uploads/decrypted/cat.png'' ''decrypted_image.png''
   \<and> db (snd (post_decrypt happy_env (Some cat_upload) (Some (FText ''abcdefgh'')) staged)) = []
   \<and> reports_success (fst (encrypt_transformation offline_env cat_upload
                              (Some (FText ''abcdefgh'')) (Some (FText ''tent'')) staged))
   \<and> fst (post_encrypt offline_env (Some cat_upload) (Some (FText ''abcdefgh''))
            (Some (FText ''tent'')) staged)
       = Json 500 (error_body (JStr ''connect ECONNREFUSED 127.0.0.1:27017''))
   \<and> db (snd (post_encrypt offline_env (Some cat_upload) (Some (FText ''abcdefgh''))
                 (Some (FText ''tent'')) staged))
       = []"
  by (simp add: happy_decrypt offline_encrypt happy_decryption offline_transformation)

section \<open>Validation comes first\<close>

text \<open>
  What the check \<open>!key || key.length < 8\<close> and the checks of the uploads do when they
  refuse a request: the response is a 400 with an error message, and sending it is
  all the handler does; no child process is started.
\<close>

lemma refused_request_starts_nothing:
  "((req_file = None \<or> key_refused e key) \<longrightarrow>
      (\<exists>message. post_encrypt e req_file key m w
          = (Json 400 (error_body (JStr message)),
             emit (Respond (Json 400 (error_body (JStr message)))) w))
      \<and> invocations (snd (post_encrypt e req_file key m w)) = invocations w)
   \<and> (((\<forall>secret cover. req_files \<noteq> Some (Some secret, Some cover)) \<or> key_refused e key) \<longrightarrow>
      (\<exists>message. post_encrypt_stego e req_files key m w
          = (Json 400 (error_body (JStr message)),
             emit (Respond (Json 400 (error_body (JStr message)))) w))
      \<and> invocations (snd (post_encrypt_stego e req_files key m w)) = invocations w)"
proof (intro conjI impI)
  assume a: "req_file = None \<or> key_refused e key"
  have "\<exists>message. encrypt_try e req_file key m w = send (Json 400 (error_body (JStr message))) w"
  proof (cases req_file)
    case None
    then show ?thesis by (auto simp add: encrypt_try_no_file)
  next
    case (Some f)
    with a show ?thesis by (auto simp add: encrypt_try_short_key)
  qed
  then obtain message where
    "post_encrypt e req_file key m w
       = (Json 400 (error_body (JStr message)), emit (Respond (Json 400 (error_body (JStr message)))) w)"
    by (auto simp add: post_encrypt_def sent_400)
  then show "\<exists>message. post_encrypt e req_file key m w
          = (Json 400 (error_body (JStr message)),
             emit (Respond (Json 400 (error_body (JStr message)))) w)"
    and "invocations (snd (post_encrypt e req_file key m w)) = invocations w"
    by auto
next
  assume a: "(\<forall>secret cover. req_files \<noteq> Some (Some secret, Some cover)) \<or> key_refused e key"
  have "\<exists>message. encrypt_stego_try e req_files key m w
          = send (Json 400 (error_body (JStr message))) w"
  proof (cases "\<forall>secret cover. req_files \<noteq> Some (Some secret, Some cover)")
    case True
    then show ?thesis by (auto simp add: stego_try_missing)
  next
    case False
    then obtain s c where "req_files = Some (Some s, Some c)" by auto
    with a show ?thesis by (auto simp add: stego_try_short_key)
  qed
  then obtain message where
    "post_encrypt_stego e req_files key m w
       = (Json 400 (error_body (JStr message)), emit (Respond (Json 400 (error_body (JStr message)))) w)"
    by (auto simp add: post_encrypt_stego_def sent_400)
  then show "\<exists>message. post_encrypt_stego e req_files key m w
          = (Json 400 (error_body (JStr message)),
             emit (Respond (Json 400 (error_body (JStr message)))) w)"
    and "invocations (snd (post_encrypt_stego e req_files key m w)) = invocations w"
    by auto
qed

text \<open>A key that is a string is refused exactly when it has fewer than 8 characters.\<close>

lemma string_key_refused: "key_refused e (Some (FText k)) = (length k < 8)"
  by (auto simp add: key_refused_def length_below_8_def)

text \<open>
  Claim C2 at a request the claim covers: the form carries the field \<open>key\<close> eight
  times, each time empty, so \<open>req.body.key\<close> is the array of eight empty strings.
  The array is truthy and its \<open>length\<close> is 8, the check lets it pass, and the
  encryption script is started with the text of the array as its key: seven commas,
  one character short of the eight that the handler's own message asks for. The
  request is answered with 200 and a document is stored. The same form sent to
  \<open>POST /encrypt-stego\<close> with both images starts the steganography script.
\<close>

theorem repeated_key_starts_process:
  "repeated_key = Some (FArr [FText '''', FText '''', FText '''', FText '''', FText '''',
                              FText '''', FText '''', FText ''''])
   \<and> truthy_field repeated_key
   \<and> map_option (length_below_8 lenient_env) repeated_key = Some False
   \<and> form_arg repeated_key = Some (Some (JStr '',,,,,,,''))
   \<and> length '',,,,,,,'' < 8
   \<and> comma_command
       = ''python3 '' @ quoted ''/app/python/encryption.py'' @ '' '' @ quoted ''encrypt'' @ '' ''
           @ quoted ''/tmp/uploads/original/1700000000000-42-cat.png'' @ '' ''
           @ quoted '',,,,,,,'' @ '' '' @ quoted ''logistic''
   \<and> fst (post_encrypt lenient_env (Some cat_upload) repeated_key None staged)
       = Json 200 (encrypt_ok_body 0 ''cat_encrypted_1700000000101.bin'' 250
           [(''encryptionTime'', JNum 250),
            (''entropy'', JObj [(''original'', JNum 0), (''encrypted'', JNum 0)]),
            (''NPCR'', JNum (996 / 10)),
            (''UACI'', JNum (334 / 10)),
            (''correlation'', JNum 0),
            (''PSNR'', JNum 0),
            (''MSE'', JNum 0)])
   \<and> invocations (snd (post_encrypt lenient_env (Some cat_upload) repeated_key None staged))
       = [Exec comma_command exec_opts, Exec measure_command exec_opts]
   \<and> db (snd (post_encrypt lenient_env (Some cat_upload) repeated_key None staged))
       = [(0, cat_doc\<lparr>chaoticMap := ''logistic''\<rparr>)]
   \<and> invocations (snd (post_encrypt_stego lenient_env (Some (Some cat_upload, Some cover_upload))
                          repeated_key None staged))
       = [Exec (''python3 '' @ quoted ''/app/python/steganography.py'' @ '' ''
                  @ quoted ''encrypt'' @ '' ''
                  @ quoted ''/tmp/uploads/original/1700000000000-42-cat.png'' @ '' ''
                  @ quoted ''/tmp/uploads/original/1700000000001-77-beach.png'' @ '' ''
                  @ quoted '',,,,,,,'' @ '' '' @ quoted ''logistic'') exec_opts]"
  by (simp add: route_defs invoker_defs scenario_defs dec_eval)

section \<open>A failing metrics step\<close>

text \<open>
  Claim C3, as the code has it. In \<open>POST /encrypt\<close> and \<open>POST /encrypt-stego\<close>, when
  the transformation has reported success and the call of the metrics script fails,
  that is, its promise rejects (on an error of the process, a kill at the deadline or
  output that does not parse) or resolves with \<open>null\<close> or with a payload whose
  \<open>success\<close> is falsy, the handler goes on to \<open>save()\<close> with the default metrics.
  If \<open>save()\<close> is accepted, the response is the 200 success body whose metrics are
  all zero except \<open>encryptionTime\<close>, the elapsed time, and the one document added
  has status \<open>completed\<close> and the same metrics; if \<open>save()\<close> rejects, nothing is
  stored and the response is a 500 with the message of that rejection.
\<close>

theorem metrics_failure_absorbed:
  "(\<not> key_refused e key \<and> encrypt_transformation e f key m w = (Inr payload, w1)
      \<and> payload \<noteq> JNull \<and> truthy (get payload ''success'')
      \<and> \<not> reports_success (fst (encrypt_measurement e f payload w1)) \<longrightarrow>
      (\<forall>d. EncryptedImage e (encrypt_newImage e f (map_or_default m)
                  (get payload ''encrypted_path'') (default_metrics (elapsed e))) = Some d
              \<and> store_error e = None \<longrightarrow>
            fst (post_encrypt e (Some f) key m w)
              = Json 200 (encrypt_ok_body (next_id w) (encrypted_name e f) (elapsed e)
                            (default_metrics (elapsed e)))
          \<and> db (snd (post_encrypt e (Some f) key m w)) = db w @ [(next_id w, d)]
          \<and> status d = ''completed''
          \<and> metrics d = \<lparr>encryptionTime = Some (of_int (elapsed e)), entropy_original = Some 0,
                          entropy_encrypted = Some 0, npcr = Some 0, uaci = Some 0\<rparr>)
       \<and> (EncryptedImage e (encrypt_newImage e f (map_or_default m)
                  (get payload ''encrypted_path'') (default_metrics (elapsed e))) = None
            \<or> store_error e \<noteq> None \<longrightarrow>
            db (snd (post_encrypt e (Some f) key m w)) = db w
          \<and> (\<exists>message. fst (post_encrypt e (Some f) key m w)
                           = Json 500 (error_body (JStr message))
                \<and> (message = validation_message e \<or> store_error e = Some message))))
   \<and> (\<not> key_refused e key \<and> stego_transformation e s c key m w = (Inr payload, w1)
      \<and> payload \<noteq> JNull \<and> truthy (get payload ''success'')
      \<and> get payload ''stego_path'' = Some (JStr sp)
      \<and> \<not> reports_success (fst (stego_measurement e c sp w1)) \<longrightarrow>
      (\<forall>d. EncryptedImage e (stego_newImage s (map_or_default m) (path_basename e sp) sp
                                   (default_metrics (elapsed e))) = Some d
              \<and> store_error e = None \<longrightarrow>
            fst (post_encrypt_stego e (Some (Some s, Some c)) key m w)
              = Json 200 (stego_ok_body (next_id w) (path_basename e sp) (elapsed e)
                            (default_metrics (elapsed e)))
          \<and> db (snd (post_encrypt_stego e (Some (Some s, Some c)) key m w))
              = db w @ [(next_id w, d)]
          \<and> status d = ''completed''
          \<and> metrics d = \<lparr>encryptionTime = Some (of_int (elapsed e)), entropy_original = Some 0,
                          entropy_encrypted = Some 0, npcr = Some 0, uaci = Some 0\<rparr>)
       \<and> (EncryptedImage e (stego_newImage s (map_or_default m) (path_basename e sp) sp
                               (default_metrics (elapsed e))) = None
            \<or> store_error e \<noteq> None \<longrightarrow>
            db (snd (post_encrypt_stego e (Some (Some s, Some c)) key m w)) = db w
          \<and> (\<exists>message. fst (post_encrypt_stego e (Some (Some s, Some c)) key m w)
                           = Json 500 (error_body (JStr message))
                \<and> (message = validation_message e \<or> store_error e = Some message))))"
  apply (rule conjI)
   apply (rule impI)
   apply (elim conjE)
   apply (rule post_encrypt_blind; assumption)
  apply (rule impI)
  apply (elim conjE)
  apply (rule post_encrypt_stego_blind; assumption)
  done

text \<open>
  The metrics script is killed at the deadline in both routes; the store accepts the
  documents.
\<close>

theorem metrics_failure_absorbed_witness:
  "\<not> key_refused blind_env (Some (FText ''abcdefgh''))
   \<and> fst (encrypt_transformation blind_env cat_upload (Some (FText ''abcdefgh'')) (Some (FText ''tent'')) staged)
       = Inr (JObj [(''success'', JBool True),
                   (''encrypted_path'', JStr ''/tmp/uploads/encrypted/cat.bin'')])
   \<and> \<not> reports_success (fst (encrypt_measurement blind_env cat_upload
           (JObj [(''success'', JBool True),
                  (''encrypted_path'', JStr ''/tmp/uploads/encrypted/cat.bin'')])
           (snd (encrypt_transformation blind_env cat_upload (Some (FText ''abcdefgh'')) (Some (FText ''tent'')) staged))))
   \<and> fst (post_encrypt blind_env (Some cat_upload) (Some (FText ''abcdefgh'')) (Some (FText ''tent'')) staged)
       = Json 200 (encrypt_ok_body 0 ''cat_encrypted_1700000000101.bin'' 250 (default_metrics 250))
   \<and> db (snd (post_encrypt blind_env (Some cat_upload) (Some (FText ''abcdefgh'')) (Some (FText ''tent'')) staged))
       = [(0, cat_doc)]
   \<and> status cat_doc = ''completed''
   \<and> metrics cat_doc = \<lparr>encryptionTime = Some 250, entropy_original = Some 0,
                          entropy_encrypted = Some 0, npcr = Some 0, uaci = Some 0\<rparr>
   \<and> \<not> reports_success (fst (stego_measurement blind_env cover_upload
           ''/tmp/uploads/stego/cat_stego.png''
           (snd (stego_transformation blind_env cat_upload cover_upload (Some (FText ''abcdefgh'')) None staged))))
   \<and> fst (post_encrypt_stego blind_env (Some (Some cat_upload, Some cover_upload))
            (Some (FText ''abcdefgh'')) None staged)
       = Json 200 (stego_ok_body 0 ''cat_stego.png'' 250 (default_metrics 250))
   \<and> db (snd (post_encrypt_stego blind_env (Some (Some cat_upload, Some cover_upload))
                 (Some (FText ''abcdefgh'')) None staged))
       = [(0, stego_doc)]"
proof -
  let ?P = "JObj [(''success'', JBool True),
                  (''encrypted_path'', JStr ''/tmp/uploads/encrypted/cat.bin'')]"
  let ?W = "snd (encrypt_transformation blind_env cat_upload (Some (FText ''abcdefgh'')) (Some (FText ''tent'')) staged)"
  let ?H = "JObj [(''success'', JBool True),
                  (''stego_path'', JStr ''/tmp/uploads/stego/cat_stego.png'')]"
  let ?V = "snd (stego_transformation blind_env cat_upload cover_upload (Some (FText ''abcdefgh'')) None staged)"
  have len: "\<not> key_refused blind_env (Some (FText ''abcdefgh''))"
    by (simp add: key_refused_def length_below_8_def)
  have tr: "encrypt_transformation blind_env cat_upload (Some (FText ''abcdefgh'')) (Some (FText ''tent'')) staged
              = (Inr ?P, ?W)"
    by (simp add: prod_eq_iff blind_transformation_value)
  have ms: "\<not> reports_success (fst (encrypt_measurement blind_env cat_upload ?P ?W))"
    by (simp add: blind_measurement_value reports_success_def)
  have p: "?P \<noteq> JNull" "truthy (get ?P ''success'')" by simp_all
  have hi: "stego_transformation blind_env cat_upload cover_upload (Some (FText ''abcdefgh'')) None staged
              = (Inr ?H, ?V)"
    by (simp add: prod_eq_iff blind_hiding_value)
  have cs: "\<not> reports_success (fst (stego_measurement blind_env cover_upload
                                      ''/tmp/uploads/stego/cat_stego.png'' ?V))"
    by (simp add: blind_comparison_value reports_success_def)
  have h: "?H \<noteq> JNull" "truthy (get ?H ''success'')"
          "get ?H ''stego_path'' = Some (JStr ''/tmp/uploads/stego/cat_stego.png'')"
    by simp_all
  note enc = metrics_failure_absorbed
      [where e = blind_env and f = cat_upload and key = "Some (FText ''abcdefgh'')" and m = "Some (FText ''tent'')"
         and w = staged and payload = ?P and ?w1.0 = ?W,
       THEN conjunct1, THEN mp,
       OF conjI [OF len conjI [OF tr conjI [OF p(1) conjI [OF p(2) ms]]]],
       THEN conjunct1, THEN spec, THEN mp,
       OF conjI [OF blind_document blind_readings(4)]]
  note hid = metrics_failure_absorbed
      [where e = blind_env and s = cat_upload and c = cover_upload and key = "Some (FText ''abcdefgh'')"
         and m = None and w = staged and payload = ?H and ?w1.0 = ?V
         and sp = "''/tmp/uploads/stego/cat_stego.png''",
       THEN conjunct2, THEN mp,
       OF conjI [OF len conjI [OF hi conjI [OF h(1) conjI [OF h(2) conjI [OF h(3) cs]]]]],
       THEN conjunct1, THEN spec, THEN mp,
       OF conjI [OF blind_stego_document blind_readings(4)]]
  show ?thesis
    using enc hid ms cs len
    by (simp add: blind_readings blind_transformation_value)
qed

text \<open>
  Claim C3 as it is worded fails twice. When the store cannot be reached, the
  transformation succeeded, the failure of the metrics script was swallowed, and the
  request still ends with a 500 and no document. And a malformed result is not always
  swallowed: when the metrics script reports success and its \<open>entropy.original\<close> is
  the text \<open>n/a\<close>, that text goes into the document, the document fails validation
  although the store can be reached, and the request ends with a 500 and no document.
\<close>

theorem refused_after_blind_metrics:
  "reports_success (fst (encrypt_transformation blind_offline_env cat_upload
                           (Some (FText ''abcdefgh'')) (Some (FText ''tent'')) staged))
   \<and> \<not> reports_success (fst (encrypt_measurement blind_offline_env cat_upload
           (JObj [(''success'', JBool True),
                  (''encrypted_path'', JStr ''/tmp/uploads/encrypted/cat.bin'')])
           (snd (encrypt_transformation blind_offline_env cat_upload (Some (FText ''abcdefgh''))
                   (Some (FText ''tent'')) staged))))
   \<and> fst (post_encrypt blind_offline_env (Some cat_upload) (Some (FText ''abcdefgh''))
            (Some (FText ''tent'')) staged)
       = Json 500 (error_body (JStr ''connect ECONNREFUSED 127.0.0.1:27017''))
   \<and> db (snd (post_encrypt blind_offline_env (Some cat_upload) (Some (FText ''abcdefgh''))
                 (Some (FText ''tent'')) staged)) = []
   \<and> reports_success (fst (encrypt_transformation garbled_env cat_upload
                             (Some (FText ''abcdefgh'')) (Some (FText ''tent'')) staged))
   \<and> fst (encrypt_measurement garbled_env cat_upload
           (JObj [(''success'', JBool True),
                  (''encrypted_path'', JStr ''/tmp/uploads/encrypted/cat.bin'')])
           (snd (encrypt_transformation garbled_env cat_upload (Some (FText ''abcdefgh''))
                   (Some (FText ''tent'')) staged)))
       = Inr (JObj [(''success'', JBool True), (''entropy'', JObj [(''original'', JStr ''n/a'')])])
   \<and> store_error garbled_env = None
   \<and> fst (post_encrypt garbled_env (Some cat_upload) (Some (FText ''abcdefgh''))
            (Some (FText ''tent'')) staged)
       = Json 500 (error_body (JStr
           (''EncryptedImage validation failed: metrics.entropy.original: ''
              @ ''Cast to Number failed for value '' @ quoted ''n/a''
              @ '' (type string) at path '' @ quoted ''metrics.entropy.original'')))
   \<and> db (snd (post_encrypt garbled_env (Some cat_upload) (Some (FText ''abcdefgh''))
                 (Some (FText ''tent'')) staged)) = []"
  by (simp add: blind_offline_encrypt blind_offline_transformation_value
        blind_offline_measurement_value garbled_encrypt garbled_transformation_value
        garbled_measurement_value garbled_store reports_success_def garbled_message_def)

section \<open>The capability invoker\<close>




section \<open>What a failed decryption leaves on disk\<close>

text \<open>
  Claim C5 at a request the claim covers: the decryption script exits with 1. The
  promise rejects, the \<open>catch\<close> block answers 500, and no path of that block
  removes the staged upload: it is still on disk when the response has been sent.
  The same happens in \<open>/decrypt-stego\<close> when the script prints nothing that
  parses.
\<close>

theorem decrypt_crash_leaves_upload:
  "path cat_upload \<in> files staged
   \<and> post_decrypt crash_env (Some cat_upload) (Some (FText ''abcdefgh'')) staged
     = (Json 500 (error_body (JStr ''Traceback (most recent call last)'')),
        \<lparr>files = {''/tmp/uploads/original/1700000000000-42-cat.png''}, db = [], next_id = 0,
         events = [Exec decrypt_command exec_opts,
                   Respond (Json 500 (error_body (JStr ''Traceback (most recent call last)'')))]\<rparr>)
   \<and> path cat_upload \<in> files (snd (post_decrypt crash_env (Some cat_upload) (Some (FText ''abcdefgh'')) staged))
   \<and> path cat_upload
       \<in> files (snd (post_decrypt_stego quiet_env (Some cat_upload) (Some (FText ''abcdefgh'')) staged))"
  by (simp add: route_defs invoker_defs scenario_defs)

section \<open>What is stored of the metrics\<close>

text \<open>
  Claim C6 at a successful request: the metrics script reports \<open>npcr\<close> 99.6 and
  \<open>uaci\<close> 33.4, the response carries them under the keys \<open>NPCR\<close> and \<open>UACI\<close>,
  and exactly one document is stored, with the measured 250 ms as
  \<open>metrics.encryptionTime\<close>. The schema's paths are \<open>metrics.npcr\<close> and
  \<open>metrics.uaci\<close>, which the object built by the route does not have, so the stored
  document holds their default, 0.
\<close>

theorem encrypt_stores_no_npcr:
  "fst (runPythonScript happy_env (metricsScript happy_env)
          [Some (JStr ''encryption''), Some (JStr (path cat_upload)),
           Some (JStr ''/tmp/uploads/encrypted/cat.bin'')] staged)
     = Inr (JObj [(''success'', JBool True), (''npcr'', JNum (996 / 10)), (''uaci'', JNum (334 / 10))])
   \<and> fst (post_encrypt happy_env (Some cat_upload) (Some (FText ''abcdefgh'')) (Some (FText ''tent'')) staged)
     = Json 200 (encrypt_ok_body 0 ''cat_encrypted_1700000000101.bin'' 250
        [(''encryptionTime'', JNum 250),
         (''entropy'', JObj [(''original'', JNum 0), (''encrypted'', JNum 0)]),
         (''NPCR'', JNum (996 / 10)),
         (''UACI'', JNum (334 / 10)),
         (''correlation'', JNum 0),
         (''PSNR'', JNum 0),
         (''MSE'', JNum 0)])
   \<and> db (snd (post_encrypt happy_env (Some cat_upload) (Some (FText ''abcdefgh'')) (Some (FText ''tent'')) staged))
     = [(0, cat_doc)]
   \<and> encryptionTime (metrics cat_doc) = Some 250
   \<and> npcr (metrics cat_doc) = Some 0
   \<and> uaci (metrics cat_doc) = Some 0"
  by (simp add: route_defs invoker_defs scenario_defs dec_eval)

section \<open>A decryption that fails\<close>

text \<open>
  The branch \<open>if (!result.success)\<close> of \<open>POST /decrypt\<close> and
  \<open>POST /decrypt-stego\<close>: when the script completes and its payload (not \<open>null\<close>)
  has a falsy \<open>success\<close>, the response is a 500 whose body holds the error detail
  (the payload's \<open>error\<close>, or a fixed text when that is missing) and the hint about
  the key; the staged upload is gone from the disk afterwards, and it was unlinked
  after the script had run and before the response was sent.
\<close>

lemma reported_failure_releases_upload:
  "(truthy_field key \<and> decrypt_transformation e f key w = (Inr payload, w1) \<and> payload \<noteq> JNull
      \<and> \<not> truthy (get payload ''success'') \<longrightarrow>
      fst (post_decrypt e (Some f) key w)
        = Json 500 (JObj
            [(''error'', or_else (get payload ''error'') (JStr ''Decryption failed'')),
             (''hint'', JStr ''Make sure you are using the correct encryption key'')])
      \<and> path f \<notin> files (snd (post_decrypt e (Some f) key w))
      \<and> (path f \<in> files w \<longrightarrow>
          events (snd (post_decrypt e (Some f) key w))
            = events w1 @ [Unlink (path f), Respond (fst (post_decrypt e (Some f) key w))]))
   \<and> (truthy_field key \<and> extract_transformation e f key w = (Inr payload, w1) \<and> payload \<noteq> JNull
      \<and> \<not> truthy (get payload ''success'') \<longrightarrow>
      fst (post_decrypt_stego e (Some f) key w)
        = Json 500 (JObj
            [(''error'', or_else (get payload ''error'') (JStr ''Extraction failed'')),
             (''hint'', JStr ''Make sure you are using the correct encryption key'')])
      \<and> path f \<notin> files (snd (post_decrypt_stego e (Some f) key w))
      \<and> (path f \<in> files w \<longrightarrow>
          events (snd (post_decrypt_stego e (Some f) key w))
            = events w1 @ [Unlink (path f),
                           Respond (fst (post_decrypt_stego e (Some f) key w))]))"
  unfolding post_decrypt_def decrypt_try_def post_decrypt_stego_def decrypt_stego_try_def
    decrypt_transformation_def extract_transformation_def
  by (intro conjI impI; (elim conjE)?; simp add: decrypt_body_failure_effect)

text \<open>The script rejects the key: the upload is unlinked, then the 500 goes out.\<close>

lemma refused_decryption:
  "post_decrypt refusing_env (Some cat_upload) (Some (FText ''abcdefgh'')) staged
     = (Json 500 (JObj [(''error'', JStr ''Invalid padding''),
                        (''hint'', JStr ''Make sure you are using the correct encryption key'')]),
        \<lparr>files = {}, db = [], next_id = 0,
         events = [Exec decrypt_command exec_opts,
                   Unlink ''/tmp/uploads/original/1700000000000-42-cat.png'',
                   Respond (Json 500 (JObj [(''error'', JStr ''Invalid padding''),
                        (''hint'', JStr ''Make sure you are using the correct encryption key'')]))]\<rparr>)"
  by (simp add: route_defs invoker_defs scenario_defs)

text \<open>
  Claim C7 at a request the claim covers: the transformation fails because the
  script exits with 1. In \<open>POST /decrypt\<close> and in \<open>POST /decrypt-stego\<close> the
  promise rejects and the \<open>catch\<close> block answers: the response is a 500 whose body
  holds the error detail alone, without the hint, and the staged upload was not
  unlinked, neither before the response nor after it.
\<close>

theorem crashed_extraction_no_hint:
  "\<not> reports_success (fst (extract_transformation crash_env cat_upload
                             (Some (FText ''abcdefgh'')) staged))
   \<and> post_decrypt_stego crash_env (Some cat_upload) (Some (FText ''abcdefgh'')) staged
     = (Json 500 (JObj [(''error'', JStr ''Traceback (most recent call last)'')]),
        \<lparr>files = {''/tmp/uploads/original/1700000000000-42-cat.png''}, db = [], next_id = 0,
         events = [Exec (''python3 '' @ quoted ''/app/python/steganography.py'' @ '' ''
                           @ quoted ''decrypt'' @ '' ''
                           @ quoted ''/tmp/uploads/original/1700000000000-42-cat.png'' @ '' ''
                           @ quoted ''abcdefgh'') exec_opts,
                   Respond (Json 500 (JObj
                     [(''error'', JStr ''Traceback (most recent call last)'')]))]\<rparr>)
   \<and> path cat_upload \<in> files (snd (post_decrypt_stego crash_env (Some cat_upload)
                                       (Some (FText ''abcdefgh'')) staged))
   \<and> Unlink (path cat_upload) \<notin> set (events (snd (post_decrypt_stego crash_env (Some cat_upload)
                                       (Some (FText ''abcdefgh'')) staged)))
   \<and> \<not> reports_success (fst (decrypt_transformation crash_env cat_upload
                             (Some (FText ''abcdefgh'')) staged))
   \<and> fst (post_decrypt crash_env (Some cat_upload) (Some (FText ''abcdefgh'')) staged)
     = Json 500 (JObj [(''error'', JStr ''Traceback (most recent call last)'')])
   \<and> Unlink (path cat_upload) \<notin> set (events (snd (post_decrypt crash_env (Some cat_upload)
                                       (Some (FText ''abcdefgh'')) staged)))"
  by (simp add: route_defs invoker_defs scenario_defs extract_transformation_def
        decrypt_transformation_def reports_success_def)

section \<open>The name of a staged upload\<close>


section \<open>Downloading a steganographic image\<close>

text \<open>
  Claim C9. When \<open>GET /download-stego/:id\<close> finds a record whose \<open>encryptionType\<close>
  is not \<open>steganography\<close>, the response is the 400 error
  \<open>Not a steganography image\<close> and nothing else happens; and whenever the route
  answers with a download, the record it found is a steganographic one and the file
  sent is that record's.
\<close>

theorem stego_download_checks_type:
  "(findById e i w = Inr (Some img) \<and> encryptionType img \<noteq> ''steganography'' \<longrightarrow>
      get_download_stego e i w
        = (Json 400 (error_body (JStr ''Not a steganography image'')),
           emit (Respond (Json 400 (error_body (JStr ''Not a steganography image'')))) w))
   \<and> (\<forall>p name. fst (get_download_stego e i w) = Download p name \<longrightarrow>
        (\<exists>img. findById e i w = Inr (Some img) \<and> encryptionType img = ''steganography''
               \<and> p = encryptedPath img))"
  by (auto simp add: get_download_stego_def download_stego_try_def catch_500_def send_def emit_def
        error_body_def split: sum.splits option.splits if_splits)

theorem stego_download_checks_type_witness:
  "findById quiet_env 0 archive = Inr (Some cat_doc)
   \<and> encryptionType cat_doc \<noteq> ''steganography''
   \<and> get_download_stego quiet_env 0 archive
        = (Json 400 (error_body (JStr ''Not a steganography image'')),
           emit (Respond (Json 400 (error_body (JStr ''Not a steganography image'')))) archive)
   \<and> fst (get_download_stego quiet_env 1 archive)
        = Download ''/tmp/uploads/stego/cat_stego.png'' ''stego_image.png''"
  using stego_download_checks_type [where e = quiet_env and i = 0 and w = archive and img = cat_doc]
        stego_download_checks_type [where e = quiet_env and i = 1 and w = archive]
  by (simp add: route_defs scenario_defs emit_def)

section \<open>The status of stored documents\<close>

text \<open>
  Claim C10. Starting from an empty store, after any sequence of requests to the
  routes, in whatever surroundings, every document in the store has status
  \<open>completed\<close>; none has \<open>pending\<close>, \<open>processing\<close> or \<open>failed\<close>.
\<close>

theorem persisted_status_completed:
  "db w = [] \<Longrightarrow> (i, d) \<in> set (db (run trace w)) \<Longrightarrow>
   status d = ''completed'' \<and> status d \<noteq> ''pending'' \<and> status d \<noteq> ''processing''
   \<and> status d \<noteq> ''failed''"
  using run_status [of w trace] by fastforce

text \<open>An encryption that is stored, followed by a decryption that crashes.\<close>

theorem persisted_status_completed_witness:
  "db staged = []
   \<and> (0, cat_doc) \<in> set (db (run
         [(happy_env, PostEncrypt (Some cat_upload) (Some (FText ''abcdefgh'')) (Some (FText ''tent''))),
          (crash_env, PostDecrypt (Some cat_upload) (Some (FText ''abcdefgh'')))] staged))
   \<and> status cat_doc = ''completed''"
proof -
  have empty: "db staged = []" by (simp add: staged_def fresh_def)
  have stored: "(0, cat_doc) \<in> set (db (run
         [(happy_env, PostEncrypt (Some cat_upload) (Some (FText ''abcdefgh'')) (Some (FText ''tent''))),
          (crash_env, PostDecrypt (Some cat_upload) (Some (FText ''abcdefgh'')))] staged))"
    by (subst happy_run) simp
  from persisted_status_completed [OF empty stored] empty stored show ?thesis by simp
qed

end
